theory Spec2Isabelle
  imports Main "HOL-Library.Sublist"
begin

section \<open>JavaScript values used by the storage service\<close>

text \<open>
  Thrown values. The constructor records which JavaScript error class was thrown, the
  string is its \<open>message\<close>. \<open>StoreError\<close> is an error object handed back or thrown by
  the object store client; \<open>DbError\<close>, \<open>CastError\<close> (its \<open>kind\<close> is \<open>ObjectId\<close>) and
  \<open>ValidationError\<close> are thrown by the document database.
\<close>

datatype js_error =
    Error string
  | ReferenceError string
  | SyntaxError string
  | TypeError string
  | StoreError string
  | DbError string
  | CastError string
  | ValidationError string

fun message :: "js_error \<Rightarrow> string" where
  "message (Error m) = m"
| "message (ReferenceError m) = m"
| "message (SyntaxError m) = m"
| "message (TypeError m) = m"
| "message (StoreError m) = m"
| "message (DbError m) = m"
| "message (CastError m) = m"
| "message (ValidationError m) = m"

subsection \<open>\<open>String.prototype.split\<close> and \<open>includes\<close>\<close>

text \<open>
  \<open>s.split(sep)\<close> for a non-empty separator cuts \<open>s\<close> at every occurrence of \<open>sep\<close>,
  scanning from the left; \<open>split_at sep cur rest\<close> carries the piece read so far.
  For the empty separator JavaScript returns the characters of \<open>s\<close>.
\<close>

function split_at :: "string \<Rightarrow> string \<Rightarrow> string \<Rightarrow> string list" where
  "split_at sep cur [] = [cur]"
| "split_at sep cur (c # cs) =
     (if sep \<noteq> [] \<and> prefix sep (c # cs)
      then cur # split_at sep [] (drop (length sep) (c # cs))
      else split_at sep (cur @ [c]) cs)"
  by pat_completeness auto
termination
  by (relation "measure (\<lambda>(sep, cur, rest). length rest)") auto

definition split_js :: "string \<Rightarrow> string \<Rightarrow> string list" where
  "split_js s sep = (if sep = [] then map (\<lambda>c. [c]) s else split_at sep [] s)"

text \<open>\<open>s.includes(t)\<close>: \<open>t\<close> occurs in \<open>s\<close> as a contiguous substring.\<close>

fun includes_js :: "string \<Rightarrow> string \<Rightarrow> bool" where
  "includes_js [] t = (t = [])"
| "includes_js (c # cs) t = (prefix t (c # cs) \<or> includes_js cs t)"

section \<open>Image buffers and the compressor\<close>

text \<open>
  A buffer is kept as what the code and the specification observe of it: its length in
  bytes, the pixel dimensions (width, height) of the image it decodes to (\<open>None\<close> when it
  is not a decodable image) and how it was encoded.
\<close>

datatype encoding = AsReceived | Jpeg nat bool

record buffer =
  blength :: nat
  dims :: "(nat \<times> nat) option"
  enc :: encoding

record resize_options =
  width :: "nat option"
  withoutEnlargement :: bool

record jpeg_options =
  quality :: nat
  mozjpeg :: bool

text \<open>
  The image library is external. The pipeline
  \<open>sharp(buf).resize(r).jpeg(j).toBuffer()\<close> is a parameter of the compressor:
  it returns the re-encoded buffer or throws.
\<close>

type_synonym sharp = "buffer \<Rightarrow> resize_options \<Rightarrow> jpeg_options \<Rightarrow> js_error + buffer"

definition compress_resize :: resize_options where
  "compress_resize = \<lparr>width = Some 1200, withoutEnlargement = True\<rparr>"

definition compress_jpeg :: jpeg_options where
  "compress_jpeg = \<lparr>quality = 70, mozjpeg = True\<rparr>"

text \<open>
  \<open>_compressImage\<close>: \<open>imageBuffer.length / 1024 < 100\<close> is exact in floating point
  (division by a power of two), so it is \<open>length < 100 * 1024\<close>. The \<open>catch\<close> returns
  the original buffer.
\<close>

definition compressImage :: "sharp \<Rightarrow> buffer \<Rightarrow> buffer" where
  "compressImage lib imageBuffer =
     (if blength imageBuffer < 100 * 1024 then imageBuffer
      else (case lib imageBuffer compress_resize compress_jpeg of
              Inr out \<Rightarrow> out
            | Inl error \<Rightarrow> imageBuffer))"

text \<open>
  What the library promises of one call that returned: the output is a JPEG encoded with
  the quality and the \<open>mozjpeg\<close> flag asked for; without a target width, or with
  \<open>withoutEnlargement\<close> and an input that is not wider than the target, the output has
  the input's dimensions; otherwise it has exactly the target width and a height within
  one pixel of the proportional height \<open>h * tw / w\<close> (the library rounds in floating
  point, so the last pixel is not fixed here). \<open>d\<close> are the dimensions of the input.
\<close>

definition near_ratio :: "nat \<times> nat \<Rightarrow> nat \<Rightarrow> nat \<Rightarrow> bool" where
  "near_ratio d tw h' =
     (1 \<le> h' \<and> h' * fst d \<le> snd d * tw + fst d \<and> snd d * tw \<le> h' * fst d + fst d)"

definition as_requested :: "resize_options \<Rightarrow> jpeg_options \<Rightarrow> nat \<times> nat \<Rightarrow> buffer \<Rightarrow> bool" where
  "as_requested r j d out =
     (enc out = Jpeg (quality j) (mozjpeg j)
      \<and> (case width r of
            None \<Rightarrow> dims out = Some d
          | Some tw \<Rightarrow>
              (if withoutEnlargement r \<and> fst d \<le> tw then dims out = Some d
               else (case dims out of
                       None \<Rightarrow> False
                     | Some d' \<Rightarrow> fst d' = tw \<and> near_ratio d tw (snd d')))))"

section \<open>The object store client (services/supabaseService.js)\<close>

text \<open>
  The store is external. A call to \<open>storage.upload\<close> or \<open>storage.remove\<close> resolves to an
  object with or without an \<open>error\<close> field, or rejects (throws).
\<close>

datatype store_reply = Done | ReplyError string | Rejects string

datatype store_event =
    StoreUpload string buffer string
  | Wait nat
  | StoreRemove "string list"

text \<open>
  \<open>upload_reply n\<close> is the store's answer to the \<open>n\<close>-th upload attempt of a call of
  \<open>uploadFile\<close> (counted from 1, as \<open>attempt\<close> is); \<open>getPublicUrl\<close> is the store's pure
  key-to-URL function; \<open>remove_reply\<close> is the answer to a batch remove.
\<close>

record service =
  bucket :: string
  lib :: sharp
  upload_reply :: "nat \<Rightarrow> store_reply"
  getPublicUrl :: "string \<Rightarrow> string \<Rightarrow> string"
  remove_reply :: "string list \<Rightarrow> store_reply"

text \<open>
  One pass through the \<open>try\<close> block of \<open>uploadFile\<close>: compress, upload, throw the
  reply's error if there is one, otherwise return the public URL.
\<close>

definition upload_attempt ::
  "service \<Rightarrow> string \<Rightarrow> buffer \<Rightarrow> string \<Rightarrow> string \<Rightarrow> nat \<Rightarrow> (js_error + string) \<times> store_event list" where
  "upload_attempt svc bucketName fileBuffer fileName mimeType attempt =
     (let processedBuffer = compressImage (lib svc) fileBuffer;
          ev = [StoreUpload fileName processedBuffer mimeType]
      in case upload_reply svc attempt of
           Done \<Rightarrow> (Inr (getPublicUrl svc bucketName fileName), ev)
         | ReplyError m \<Rightarrow> (Inl (StoreError m), ev)
         | Rejects m \<Rightarrow> (Inl (StoreError m), ev))"

text \<open>
  The retry loop \<open>for (attempt = 1; attempt <= retries; attempt++)\<close>. \<open>wait\<close> gives the
  milliseconds slept after a failed attempt that is not the last. When the loop ends
  without returning (only for \<open>retries < 1\<close>) the function returns \<open>undefined\<close>: \<open>None\<close>.
\<close>

function upload_loop ::
  "(nat \<Rightarrow> nat) \<Rightarrow> service \<Rightarrow> string \<Rightarrow> buffer \<Rightarrow> string \<Rightarrow> string \<Rightarrow> nat \<Rightarrow> nat
     \<Rightarrow> (js_error + string option) \<times> store_event list" where
  "upload_loop wait svc bucketName fileBuffer fileName mimeType retries attempt =
     (if attempt \<le> retries then
        (case upload_attempt svc bucketName fileBuffer fileName mimeType attempt of
           (Inr url, ev) \<Rightarrow> (Inr (Some url), ev)
         | (Inl error, ev) \<Rightarrow>
             (if attempt = retries then (Inl error, ev)
              else (case upload_loop wait svc bucketName fileBuffer fileName mimeType retries
                           (attempt + 1) of
                      (r, ev') \<Rightarrow> (r, ev @ [Wait (wait attempt)] @ ev'))))
      else (Inr None, []))"
  by pat_completeness auto
termination
  by (relation "measure (\<lambda>(wait, svc, b, buf, f, m, retries, attempt). Suc retries - attempt)") auto

text \<open>\<open>uploadFile\<close> of services/supabaseService.js: \<open>Math.pow(2, attempt) * 1000\<close> ms.\<close>

definition uploadFile ::
  "service \<Rightarrow> buffer \<Rightarrow> string \<Rightarrow> string \<Rightarrow> (js_error + string option) \<times> store_event list" where
  "uploadFile svc fileBuffer fileName mimeType =
     upload_loop (\<lambda>attempt. 2 ^ attempt * 1000) svc (bucket svc) fileBuffer fileName mimeType 3 1"

text \<open>
  \<open>uploadFile\<close> of the second copy of the service (the one appended to
  routes/services.js): \<open>1000 * attempt\<close> ms.
\<close>

definition uploadFile_copy ::
  "service \<Rightarrow> buffer \<Rightarrow> string \<Rightarrow> string \<Rightarrow> (js_error + string option) \<times> store_event list" where
  "uploadFile_copy svc fileBuffer fileName mimeType =
     upload_loop (\<lambda>attempt. 1000 * attempt) svc (bucket svc) fileBuffer fileName mimeType 3 1"

text \<open>
  \<open>deleteFile\<close>: the body of the \<open>try\<close> block, then the \<open>catch\<close>, which only logs.
  The separator \<open>bucket + "/"\<close> is never empty, so \<open>split\<close> returns at least one piece and
  \<open>pop()\<close> is its last one.
\<close>

definition remove_call :: "service \<Rightarrow> string list \<Rightarrow> (js_error + store_reply) \<times> store_event list" where
  "remove_call svc paths =
     (case remove_reply svc paths of
        Rejects m \<Rightarrow> (Inl (StoreError m), [StoreRemove paths])
      | r \<Rightarrow> (Inr r, [StoreRemove paths]))"

definition deleteFile_try :: "service \<Rightarrow> string \<Rightarrow> (js_error + unit) \<times> store_event list" where
  "deleteFile_try svc fileUrl =
     (if fileUrl = [] then (Inr (), [])
      else let path = last (split_js fileUrl (bucket svc @ ''/''))
           in (case remove_call svc [path] of
                 (Inl e, ev) \<Rightarrow> (Inl e, ev)
               | (Inr r, ev) \<Rightarrow> (Inr (), ev)))"

definition deleteFile :: "service \<Rightarrow> string \<Rightarrow> (js_error + unit) \<times> store_event list" where
  "deleteFile svc fileUrl =
     (case deleteFile_try svc fileUrl of
        (Inl error, ev) \<Rightarrow> (Inr (), ev)
      | (Inr u, ev) \<Rightarrow> (Inr u, ev))"

text \<open>
  \<open>deleteFiles\<close>: \<open>parts.length > 1 ? parts[1] : null\<close>, the nulls filtered out, one batch
  remove when a path is left; the reply's error is thrown inside the \<open>try\<close> and caught.
\<close>

definition url_path :: "service \<Rightarrow> string \<Rightarrow> string option" where
  "url_path svc url =
     (let parts = split_js url (bucket svc @ ''/'')
      in if length parts > 1 then Some (parts ! 1) else None)"

definition deleteFiles_try :: "service \<Rightarrow> string list \<Rightarrow> (js_error + unit) \<times> store_event list" where
  "deleteFiles_try svc urls =
     (let paths = List.map_filter (url_path svc) urls
      in if length paths > 0 then
           (case remove_call svc paths of
              (Inl e, ev) \<Rightarrow> (Inl e, ev)
            | (Inr (ReplyError m), ev) \<Rightarrow> (Inl (StoreError m), ev)
            | (Inr r, ev) \<Rightarrow> (Inr (), ev))
         else (Inr (), []))"

definition deleteFiles :: "service \<Rightarrow> string list \<Rightarrow> (js_error + unit) \<times> store_event list" where
  "deleteFiles svc urls =
     (if length urls = 0 then (Inr (), [])
      else (case deleteFiles_try svc urls of
              (Inl error, ev) \<Rightarrow> (Inr (), ev)
            | (Inr u, ev) \<Rightarrow> (Inr u, ev)))"

section \<open>Route handlers: requests, environment and observable events\<close>

text \<open>
  A handler is modelled by the sequence of calls it makes to its collaborators. The
  results of those calls are the environment of one request:
  \<^item> \<open>upload_result i\<close>: what the \<open>i\<close>-th upload call of the request (counted from 0)
    returns (the public URL) or throws;
  \<^item> \<open>find_result\<close>: what \<open>findById\<close> returns (\<open>None\<close> is \<open>null\<close>) or throws;
  \<^item> \<open>write_result\<close>: whether the database write (\<open>save\<close>, \<open>create\<close>,
    \<open>findByIdAndUpdate\<close>, \<open>deleteOne\<close>) throws; \<open>Inr False\<close> is \<open>findByIdAndUpdate\<close>
    returning \<open>null\<close> because no document has the id;
  \<^item> \<open>json_error t\<close>: the error \<open>JSON.parse(t)\<close> throws, if it throws.
\<close>

datatype db_call = FindById | Save | Create | FindByIdAndUpdate | DeleteOne

datatype event =
    UploadFile string
  | DeleteFiles "string list"
  | DeleteFile string
  | UploadImage string
  | DeleteImage string
  | Db db_call bool
  | Respond nat

record 'd env =
  upload_result :: "nat \<Rightarrow> js_error + string"
  find_result :: "js_error + 'd option"
  write_result :: "js_error + bool"
  json_error :: "string \<Rightarrow> js_error option"

record upfile =
  originalname :: string
  mimetype :: string
  content :: buffer

record rstate =
  ncalls :: nat
  trace :: "event list"

definition start :: rstate where
  "start = \<lparr>ncalls = 0, trace = []\<rparr>"

definition log :: "event \<Rightarrow> rstate \<Rightarrow> rstate" where
  "log e s = s\<lparr>trace := trace s @ [e]\<rparr>"

text \<open>\<open>await supabaseService.uploadFile(file.buffer, fileName, file.mimetype)\<close>.\<close>

definition call_uploadFile :: "'d env \<Rightarrow> upfile \<Rightarrow> rstate \<Rightarrow> (js_error + string) \<times> rstate" where
  "call_uploadFile env file s =
     (upload_result env (ncalls s),
      s\<lparr>ncalls := Suc (ncalls s), trace := trace s @ [UploadFile (originalname file)]\<rparr>)"

text \<open>A multipart text field: one string, or an array when the field is repeated.\<close>

datatype formval = Single string | Multi "string list"

text \<open>Truthiness of a form value: the empty string is falsy, every array is truthy.\<close>

fun truthy :: "formval option \<Rightarrow> bool" where
  "truthy None = False"
| "truthy (Some (Single v)) = (v \<noteq> [])"
| "truthy (Some (Multi vs)) = True"

text \<open>\<open>Array.isArray(v) ? v[0] : v\<close>; \<open>None\<close> is \<open>undefined\<close>.\<close>

fun first_value :: "formval \<Rightarrow> string option" where
  "first_value (Single v) = Some v"
| "first_value (Multi []) = None"
| "first_value (Multi (v # vs)) = Some v"

text \<open>\<open>JSON.parse(x)\<close> on a string or on \<open>undefined\<close> (which is not JSON).\<close>

definition JSON_parse :: "'d env \<Rightarrow> string option \<Rightarrow> js_error + string" where
  "JSON_parse env x =
     (case x of
        None \<Rightarrow> Inl (SyntaxError ''undefined is not valid JSON'')
      | Some t \<Rightarrow> (case json_error env t of Some e \<Rightarrow> Inl e | None \<Rightarrow> Inr t))"

section \<open>Project routes (routes/projects.js)\<close>

record project =
  mainImage :: string
  images :: "string list"

record project_request =
  body :: "string \<rightharpoonup> formval"
  mainImageFile :: "upfile option"
  galleryFiles :: "upfile list"
  permanent :: "string option"

text \<open>
  \<open>rollbackUploads\<close>: one \<open>deleteFiles\<close> call when the list is not empty; the promise's
  \<open>catch\<close> keeps it from throwing.
\<close>

definition rollbackUploads :: "string list \<Rightarrow> rstate \<Rightarrow> rstate" where
  "rollbackUploads uploadedUrls s =
     (if length uploadedUrls > 0 then log (DeleteFiles uploadedUrls) s else s)"

definition fields_list :: "string list" where
  "fields_list = [''price'', ''currency'', ''bedrooms'', ''bathrooms'', ''area'', ''areaUnit'',
             ''type'', ''status'', ''badge'']"

text \<open>
  The parsed translations are kept as the JSON text they were parsed from; \<open>assigned\<close>
  lists the scalar fields the handler copied from the body.
\<close>

record parsed =
  parsed_translations :: "string option"
  assigned :: "string list"
  featured :: "bool option"

definition parse_translations :: "'d env \<Rightarrow> (string \<rightharpoonup> formval) \<Rightarrow> js_error + string option" where
  "parse_translations env b =
     (case b ''translations'' of
        None \<Rightarrow> Inr None
      | Some v \<Rightarrow>
          (if truthy (Some v) then
             (case JSON_parse env (first_value v) of
                Inl e \<Rightarrow> Inl e
              | Inr t \<Rightarrow> Inr (Some t))
           else Inr None))"

definition parse_featured :: "(string \<rightharpoonup> formval) \<Rightarrow> bool option" where
  "parse_featured b =
     (case b ''featured'' of
        None \<Rightarrow> None
      | Some v \<Rightarrow> Some (first_value v = Some ''true''))"

text \<open>
  The field loop of the create handler: for a field the body defines, the assignment
  \<open>updates[field] = ...\<close> evaluates the identifier \<open>updates\<close>, which is declared nowhere
  in the create handler's scope, and throws.
\<close>

fun create_fields :: "(string \<rightharpoonup> formval) \<Rightarrow> string list \<Rightarrow> js_error + string list" where
  "create_fields b [] = Inr []"
| "create_fields b (field # rest) =
     (if b field \<noteq> None then Inl (ReferenceError ''updates is not defined'')
      else create_fields b rest)"

definition parse_create :: "'d env \<Rightarrow> (string \<rightharpoonup> formval) \<Rightarrow> js_error + parsed" where
  "parse_create env b =
     (case parse_translations env b of
        Inl e \<Rightarrow> Inl e
      | Inr t \<Rightarrow>
          (case create_fields b fields_list of
             Inl e \<Rightarrow> Inl e
           | Inr fs \<Rightarrow> Inr \<lparr>parsed_translations = t, assigned = fs, featured = parse_featured b\<rparr>))"

text \<open>
  The same loop in the update handler, where \<open>updates\<close> is a local object: every
  defined field is assigned, nothing throws.
\<close>

definition parse_update :: "'d env \<Rightarrow> (string \<rightharpoonup> formval) \<Rightarrow> js_error + parsed" where
  "parse_update env b =
     (case parse_translations env b of
        Inl e \<Rightarrow> Inl e
      | Inr t \<Rightarrow>
          Inr \<lparr>parsed_translations = t, assigned = filter (\<lambda>field. b field \<noteq> None) fields_list,
               featured = parse_featured b\<rparr>)"

subsection \<open>POST /api/projects\<close>

text \<open>
  The gallery loop: on success the URL is pushed to \<open>projectData.images\<close> and to
  \<open>uploadedUrls\<close>; on failure the inner \<open>catch\<close> rolls back and throws a new \<open>Error\<close>.
\<close>

fun create_gallery ::
  "'d env \<Rightarrow> upfile list \<Rightarrow> string list \<Rightarrow> string list \<Rightarrow> rstate
     \<Rightarrow> (js_error + string list) \<times> string list \<times> rstate" where
  "create_gallery env [] imgs uploadedUrls s = (Inr imgs, uploadedUrls, s)"
| "create_gallery env (file # files) imgs uploadedUrls s =
     (case call_uploadFile env file s of
        (Inr url, s1) \<Rightarrow> create_gallery env files (imgs @ [url]) (uploadedUrls @ [url]) s1
      | (Inl uploadError, s1) \<Rightarrow>
          (Inl (Error (''Image upload failed: '' @ message uploadError)), uploadedUrls,
           rollbackUploads uploadedUrls s1))"

text \<open>Step B: the main image; a failed upload throws straight to the outer \<open>catch\<close>.\<close>

definition create_main ::
  "'d env \<Rightarrow> upfile option \<Rightarrow> rstate \<Rightarrow> (js_error + string option) \<times> string list \<times> rstate" where
  "create_main env mf s =
     (case mf of
        None \<Rightarrow> (Inr None, [], s)
      | Some file \<Rightarrow>
          (case call_uploadFile env file s of
             (Inr url, s1) \<Rightarrow> (Inr (Some url), [url], s1)
           | (Inl e, s1) \<Rightarrow> (Inl e, [], s1)))"

text \<open>Step D: \<open>new Project(projectData).save()\<close>, then the 201 response.\<close>

definition create_save :: "'d env \<Rightarrow> rstate \<Rightarrow> (js_error + unit) \<times> rstate" where
  "create_save env s =
     (case write_result env of
        Inl e \<Rightarrow> (Inl e, log (Db Save False) s)
      | Inr r \<Rightarrow> (Inr (), log (Respond 201) (log (Db Save True) s)))"

text \<open>The \<open>try\<close> block: the thrown error if any, \<open>uploadedUrls\<close>, and the state.\<close>

definition create_project_try ::
  "'d env \<Rightarrow> project_request \<Rightarrow> (js_error + unit) \<times> string list \<times> rstate" where
  "create_project_try env req =
     (case parse_create env (body req) of
        Inl e \<Rightarrow> (Inl e, [], start)
      | Inr projectData \<Rightarrow>
          (case create_main env (mainImageFile req) start of
             (Inl e, up, s1) \<Rightarrow> (Inl e, up, s1)
           | (Inr m, up, s1) \<Rightarrow>
               (case create_gallery env (galleryFiles req) [] up s1 of
                  (Inl e, up2, s2) \<Rightarrow> (Inl e, up2, s2)
                | (Inr imgs, up2, s2) \<Rightarrow>
                    (case create_save env s2 of (r, s3) \<Rightarrow> (r, up2, s3)))))"

text \<open>The handler: the outer \<open>catch\<close> rolls back \<open>uploadedUrls\<close> and answers 500.\<close>

definition create_project :: "'d env \<Rightarrow> project_request \<Rightarrow> event list" where
  "create_project env req =
     (case create_project_try env req of
        (Inr u, up, s) \<Rightarrow> trace s
      | (Inl error, up, s) \<Rightarrow> trace (log (Respond 500) (rollbackUploads up s)))"

subsection \<open>PUT /api/projects/:id\<close>

text \<open>
  Step B: the new main image. On success \<open>oldMainImage\<close> is the stored main image
  (the empty string stands for a missing one: both are falsy); the inner \<open>catch\<close> rolls
  back \<open>uploadedUrls\<close>, which is still empty there, and throws a new \<open>Error\<close>.
\<close>

definition update_main ::
  "project env \<Rightarrow> project \<Rightarrow> upfile option \<Rightarrow> rstate
     \<Rightarrow> (js_error + string) \<times> string list \<times> rstate" where
  "update_main env proj mf s =
     (case mf of
        None \<Rightarrow> (Inr [], [], s)
      | Some file \<Rightarrow>
          (case call_uploadFile env file s of
             (Inr newUrl, s1) \<Rightarrow> (Inr (mainImage proj), [newUrl], s1)
           | (Inl uploadError, s1) \<Rightarrow>
               (Inl (Error (''Main image upload failed: '' @ message uploadError)), [],
                rollbackUploads [] s1)))"

text \<open>Step C.1: the gallery URLs the client keeps.\<close>

definition existing_images :: "(string \<rightharpoonup> formval) \<Rightarrow> string list" where
  "existing_images b =
     (case b ''existingImages'' of
        None \<Rightarrow> []
      | Some (Single v) \<Rightarrow> (if v \<noteq> [] then [v] else [])
      | Some (Multi vs) \<Rightarrow> vs)"

text \<open>Step C.3: the gallery loop of the update handler.\<close>

fun update_gallery ::
  "'d env \<Rightarrow> upfile list \<Rightarrow> string list \<Rightarrow> string list \<Rightarrow> rstate
     \<Rightarrow> (js_error + string list) \<times> string list \<times> rstate" where
  "update_gallery env [] finalImages uploadedUrls s = (Inr finalImages, uploadedUrls, s)"
| "update_gallery env (file # files) finalImages uploadedUrls s =
     (case call_uploadFile env file s of
        (Inr url, s1) \<Rightarrow>
          update_gallery env files (finalImages @ [url]) (uploadedUrls @ [url]) s1
      | (Inl uploadError, s1) \<Rightarrow>
          (Inl (Error (''Gallery upload failed: '' @ message uploadError)), uploadedUrls,
           rollbackUploads uploadedUrls s1))"

text \<open>
  Steps D and E: \<open>findByIdAndUpdate\<close>, then the cleanup call that is not awaited, then
  the response. Reading \<open>updatedProject._id\<close> throws when the update returned \<open>null\<close>.
\<close>

definition update_write ::
  "'d env \<Rightarrow> string list \<Rightarrow> string \<Rightarrow> rstate \<Rightarrow> (js_error + unit) \<times> rstate" where
  "update_write env imagesToDelete oldMainImage s =
     (case write_result env of
        Inl e \<Rightarrow> (Inl e, log (Db FindByIdAndUpdate False) s)
      | Inr updated \<Rightarrow>
          (let s1 = log (Db FindByIdAndUpdate True) s;
               imagesToDeleteLater =
                 imagesToDelete @ (if oldMainImage \<noteq> [] then [oldMainImage] else []);
               s2 = (if length imagesToDeleteLater > 0
                     then log (DeleteFiles imagesToDeleteLater) s1 else s1)
           in if updated then (Inr (), log (Respond 200) s2)
              else (Inl (TypeError ''Cannot read properties of null''), s2)))"

definition update_found ::
  "project env \<Rightarrow> project_request \<Rightarrow> project \<Rightarrow> rstate
     \<Rightarrow> (js_error + unit) \<times> string list \<times> rstate" where
  "update_found env req proj s =
     (case parse_update env (body req) of
        Inl e \<Rightarrow> (Inl e, [], s)
      | Inr updates \<Rightarrow>
          (case update_main env proj (mainImageFile req) s of
             (Inl e, up, s1) \<Rightarrow> (Inl e, up, s1)
           | (Inr oldMainImage, up, s1) \<Rightarrow>
               (let finalImages = existing_images (body req);
                    imagesToDelete = filter (\<lambda>url. url \<notin> set finalImages) (images proj)
                in case update_gallery env (galleryFiles req) finalImages up s1 of
                     (Inl e, up2, s2) \<Rightarrow> (Inl e, up2, s2)
                   | (Inr finalImages2, up2, s2) \<Rightarrow>
                       (case update_write env imagesToDelete oldMainImage s2 of
                          (r, s3) \<Rightarrow> (r, up2, s3)))))"

definition update_project_try ::
  "project env \<Rightarrow> project_request \<Rightarrow> (js_error + unit) \<times> string list \<times> rstate" where
  "update_project_try env req =
     (case find_result env of
        Inl e \<Rightarrow> (Inl e, [], log (Db FindById False) start)
      | Inr None \<Rightarrow> (Inr (), [], log (Respond 404) (log (Db FindById True) start))
      | Inr (Some proj) \<Rightarrow> update_found env req proj (log (Db FindById True) start))"

definition update_project :: "project env \<Rightarrow> project_request \<Rightarrow> event list" where
  "update_project env req =
     (case update_project_try env req of
        (Inr u, up, s) \<Rightarrow> trace s
      | (Inl error, up, s) \<Rightarrow> trace (log (Respond 500) (rollbackUploads up s)))"

subsection \<open>DELETE /api/projects/:id\<close>

definition hard_delete :: "project env \<Rightarrow> (js_error + unit) \<times> rstate" where
  "hard_delete env =
     (case find_result env of
        Inl e \<Rightarrow> (Inl e, log (Db FindById False) start)
      | Inr None \<Rightarrow> (Inr (), log (Respond 404) (log (Db FindById True) start))
      | Inr (Some proj) \<Rightarrow>
          (let s = log (Db FindById True) start;
               imagesToDelete =
                 (if mainImage proj \<noteq> [] then [mainImage proj] else []) @ images proj
           in case write_result env of
                Inl e \<Rightarrow> (Inl e, log (Db DeleteOne False) s)
              | Inr r \<Rightarrow>
                  (let s1 = log (Db DeleteOne True) s;
                       s2 = (if length imagesToDelete > 0
                             then log (DeleteFiles imagesToDelete) s1 else s1)
                   in (Inr (), log (Respond 200) s2))))"

text \<open>
  The soft delete: \<open>await Project.findByIdAndUpdate(id, {status: 'deleted'})\<close>, whose
  result is not looked at, then the success response.
\<close>

definition soft_delete :: "project env \<Rightarrow> (js_error + unit) \<times> rstate" where
  "soft_delete env =
     (case write_result env of
        Inl e \<Rightarrow> (Inl e, log (Db FindByIdAndUpdate False) start)
      | Inr r \<Rightarrow> (Inr (), log (Respond 200) (log (Db FindByIdAndUpdate True) start)))"

definition delete_project :: "project env \<Rightarrow> project_request \<Rightarrow> event list" where
  "delete_project env req =
     (case (if permanent req = Some ''true'' then hard_delete env else soft_delete env) of
        (Inr u, s) \<Rightarrow> trace s
      | (Inl error, s) \<Rightarrow> trace (log (Respond 500) s))"

section \<open>Course routes (routes/courses.js)\<close>

record course =
  course_image :: string

record course_request =
  cbody :: "string \<rightharpoonup> string"
  imageFile :: "upfile option"

text \<open>
  \<open>parseCourseData\<close> copies the body and converts the values of \<open>translations\<close>,
  \<open>price\<close>, \<open>order\<close> and \<open>active\<close> in place; its \<open>JSON.parse\<close> sits in a \<open>try\<close> of its
  own, so it never throws, and it adds or removes no field. The fields are kept here as
  the strings they were sent as; the handlers below read only \<open>image\<close>, which is not
  converted.
\<close>

definition parseCourseData :: "(string \<rightharpoonup> string) \<Rightarrow> (string \<rightharpoonup> string)" where
  "parseCourseData b = b"

definition placeholder :: string where
  "placeholder = ''https://placehold.co/600x400/d4af37/ffffff?text=Course''"

subsection \<open>POST /api/courses\<close>

text \<open>
  Returns the thrown error if any, the image URL handed to \<open>Course.create\<close>, and the
  state. The upload's own \<open>catch\<close> rethrows the error as it is.
\<close>

definition create_course_try ::
  "course env \<Rightarrow> course_request \<Rightarrow> (js_error + unit) \<times> string \<times> rstate" where
  "create_course_try env req =
     (let courseData = parseCourseData (cbody req);
          given = (case courseData ''image'' of Some v \<Rightarrow> v | None \<Rightarrow> []);
          uploaded =
            (case imageFile req of
               Some file \<Rightarrow> call_uploadFile env file start
             | None \<Rightarrow> (Inr (if given = [] then placeholder else given), start))
      in case uploaded of
           (Inl uploadError, s) \<Rightarrow> (Inl uploadError, given, s)
         | (Inr img, s) \<Rightarrow>
             (case write_result env of
                Inl e \<Rightarrow> (Inl e, img, log (Db Create False) s)
              | Inr r \<Rightarrow> (Inr (), img, log (Respond 201) (log (Db Create True) s))))"

text \<open>The \<open>catch\<close> of the create handler answers 500 and does nothing else.\<close>

definition create_course :: "course env \<Rightarrow> course_request \<Rightarrow> event list" where
  "create_course env req =
     (case create_course_try env req of
        (Inr u, img, s) \<Rightarrow> trace s
      | (Inl error, img, s) \<Rightarrow> trace (log (Respond 500) s))"

subsection \<open>PUT /api/courses/:id\<close>

text \<open>
  With a new file the stored image, when it is hosted on the store, is deleted first
  (\<open>await supabaseService.deleteFile(course.image)\<close>), then the new file is uploaded,
  then the document is updated.
\<close>

definition replace_image ::
  "course env \<Rightarrow> course \<Rightarrow> upfile option \<Rightarrow> rstate \<Rightarrow> (js_error + unit) \<times> rstate" where
  "replace_image env c f s =
     (case f of
        None \<Rightarrow> (Inr (), s)
      | Some file \<Rightarrow>
          (let s1 = (if course_image c \<noteq> [] \<and> includes_js (course_image c) ''supabase''
                     then log (DeleteFile (course_image c)) s else s)
           in case call_uploadFile env file s1 of
                (Inl e, s2) \<Rightarrow> (Inl e, s2)
              | (Inr url, s2) \<Rightarrow> (Inr (), s2)))"

definition update_course_try :: "course env \<Rightarrow> course_request \<Rightarrow> (js_error + unit) \<times> rstate" where
  "update_course_try env req =
     (case find_result env of
        Inl e \<Rightarrow> (Inl e, log (Db FindById False) start)
      | Inr None \<Rightarrow> (Inr (), log (Respond 404) (log (Db FindById True) start))
      | Inr (Some c) \<Rightarrow>
          (case replace_image env c (imageFile req) (log (Db FindById True) start) of
             (Inl e, s) \<Rightarrow> (Inl e, s)
           | (Inr u, s) \<Rightarrow>
               (case write_result env of
                  Inl e \<Rightarrow> (Inl e, log (Db FindByIdAndUpdate False) s)
                | Inr r \<Rightarrow> (Inr (), log (Respond 200) (log (Db FindByIdAndUpdate True) s)))))"

definition update_course :: "course env \<Rightarrow> course_request \<Rightarrow> event list" where
  "update_course env req =
     (case update_course_try env req of
        (Inr u, s) \<Rightarrow> trace s
      | (Inl error, s) \<Rightarrow> trace (log (Respond 500) s))"

subsection \<open>DELETE /api/courses/:id\<close>

definition delete_course_try :: "course env \<Rightarrow> (js_error + unit) \<times> rstate" where
  "delete_course_try env =
     (case find_result env of
        Inl e \<Rightarrow> (Inl e, log (Db FindById False) start)
      | Inr None \<Rightarrow> (Inr (), log (Respond 404) (log (Db FindById True) start))
      | Inr (Some c) \<Rightarrow>
          (let s = log (Db FindById True) start;
               s1 = (if course_image c \<noteq> [] \<and> includes_js (course_image c) ''supabase''
                     then log (DeleteFile (course_image c)) s else s)
           in case write_result env of
                Inl e \<Rightarrow> (Inl e, log (Db DeleteOne False) s1)
              | Inr r \<Rightarrow> (Inr (), log (Respond 200) (log (Db DeleteOne True) s1))))"

definition delete_course :: "course env \<Rightarrow> event list" where
  "delete_course env =
     (case delete_course_try env of
        (Inr u, s) \<Rightarrow> trace s
      | (Inl error, s) \<Rightarrow> trace (log (Respond 500) s))"

section \<open>Service routes (routes/services.js)\<close>

text \<open>
  \<open>deleteImageFromSupabase\<close>, the route module's own delete helper, on the store client
  the application holds (\<open>None\<close> when it holds none). It always uses the bucket
  \<open>media\<close>.
\<close>

definition deleteImage_try :: "service option \<Rightarrow> string \<Rightarrow> (js_error + unit) \<times> store_event list" where
  "deleteImage_try supabase imageUrl =
     (case supabase of
        None \<Rightarrow> (Inr (), [])
      | Some svc \<Rightarrow>
          (if imageUrl = [] then (Inr (), [])
           else if includes_js imageUrl ''supabase'' then
             (let urlParts = split_js imageUrl ''/media/''
              in if length urlParts < 2 then (Inr (), [])
                 else (case remove_call svc [urlParts ! 1] of
                         (Inl e, ev) \<Rightarrow> (Inl e, ev)
                       | (Inr r, ev) \<Rightarrow> (Inr (), ev)))
           else (Inr (), [])))"

definition deleteImageFromSupabase ::
  "service option \<Rightarrow> string \<Rightarrow> (js_error + unit) \<times> store_event list" where
  "deleteImageFromSupabase supabase imageUrl =
     (case deleteImage_try supabase imageUrl of
        (Inl error, ev) \<Rightarrow> (Inr (), ev)
      | (Inr u, ev) \<Rightarrow> (Inr u, ev))"

record service_doc =
  icon :: string

record service_request =
  sbody :: "string \<rightharpoonup> string"
  iconFile :: "upfile option"

subsection \<open>PUT /api/services/:id\<close>

text \<open>\<open>await uploadImageToSupabase(req.app.get('supabase'), req.file, filePath)\<close>.\<close>

definition call_uploadImage :: "'d env \<Rightarrow> upfile \<Rightarrow> rstate \<Rightarrow> (js_error + string) \<times> rstate" where
  "call_uploadImage env file s =
     (upload_result env (ncalls s),
      s\<lparr>ncalls := Suc (ncalls s), trace := trace s @ [UploadImage (originalname file)]\<rparr>)"

text \<open>
  The icon step: \<open>iconUrl = req.body.icon || service.icon\<close>, replaced by the uploaded
  URL when there is a file. Returns \<open>iconUrl\<close> and \<open>uploadedIconUrl\<close> (empty for \<open>null\<close>).
\<close>

definition service_icon ::
  "service_doc env \<Rightarrow> service_request \<Rightarrow> service_doc \<Rightarrow> rstate
     \<Rightarrow> (js_error + string) \<times> string \<times> rstate" where
  "service_icon env req svc s =
     (let given = (case sbody req ''icon'' of Some v \<Rightarrow> v | None \<Rightarrow> []);
          iconUrl = (if given \<noteq> [] then given else icon svc)
      in case iconFile req of
           None \<Rightarrow> (Inr iconUrl, [], s)
         | Some file \<Rightarrow>
             (case call_uploadImage env file s of
                (Inl e, s1) \<Rightarrow> (Inl e, [], s1)
              | (Inr url, s1) \<Rightarrow> (Inr url, url, s1)))"

text \<open>
  The old icon is deleted when the icon changes, and then the document is updated.
  Reading \<open>updatedService.translations\<close> throws when the update returned \<open>null\<close>.
\<close>

definition service_write ::
  "service_doc env \<Rightarrow> string \<Rightarrow> string \<Rightarrow> rstate \<Rightarrow> (js_error + unit) \<times> rstate" where
  "service_write env oldIconUrl finalIcon s =
     (let s1 = (if oldIconUrl \<noteq> [] \<and> finalIcon \<noteq> [] \<and> oldIconUrl \<noteq> finalIcon
                then log (DeleteImage oldIconUrl) s else s)
      in case write_result env of
           Inl e \<Rightarrow> (Inl e, log (Db FindByIdAndUpdate False) s1)
         | Inr updated \<Rightarrow>
             (if updated then (Inr (), log (Respond 200) (log (Db FindByIdAndUpdate True) s1))
              else (Inl (TypeError ''Cannot read properties of null''),
                    log (Db FindByIdAndUpdate True) s1)))"

definition update_service_try ::
  "service_doc env \<Rightarrow> service_request \<Rightarrow> (js_error + unit) \<times> string \<times> rstate" where
  "update_service_try env req =
     (case find_result env of
        Inl e \<Rightarrow> (Inl e, [], log (Db FindById False) start)
      | Inr None \<Rightarrow> (Inr (), [], log (Respond 404) (log (Db FindById True) start))
      | Inr (Some svc) \<Rightarrow>
          (let s = log (Db FindById True) start;
               oldIconUrl = icon svc;
               parsed = (case sbody req ''translations'' of
                           None \<Rightarrow> Inr None
                         | Some t \<Rightarrow>
                             (case JSON_parse env (Some t) of
                                Inl e \<Rightarrow> Inl e
                              | Inr j \<Rightarrow> Inr (Some j)))
           in case parsed of
                Inl e \<Rightarrow> (Inl e, [], s)
              | Inr tr \<Rightarrow>
                  (case service_icon env req svc s of
                     (Inl e, uploadedIconUrl, s1) \<Rightarrow> (Inl e, uploadedIconUrl, s1)
                   | (Inr iconUrl, uploadedIconUrl, s1) \<Rightarrow>
                       (case service_write env oldIconUrl iconUrl s1 of
                          (r, s2) \<Rightarrow> (r, uploadedIconUrl, s2)))))"

text \<open>
  The \<open>catch\<close>: the new icon is rolled back, then the status depends on the error:
  404 for a malformed id, 400 for a validation error, 500 otherwise.
\<close>

fun error_status :: "js_error \<Rightarrow> nat" where
  "error_status (CastError m) = 404"
| "error_status (ValidationError m) = 400"
| "error_status e = 500"

definition update_service :: "service_doc env \<Rightarrow> service_request \<Rightarrow> event list" where
  "update_service env req =
     (case update_service_try env req of
        (Inr u, uploadedIconUrl, s) \<Rightarrow> trace s
      | (Inl error, uploadedIconUrl, s) \<Rightarrow>
          trace (log (Respond (error_status error))
                   (if uploadedIconUrl \<noteq> [] then log (DeleteImage uploadedIconUrl) s else s)))"

section \<open>Properties stated over traces\<close>

fun reply_message :: "store_reply \<Rightarrow> string" where
  "reply_message Done = []"
| "reply_message (ReplyError m) = m"
| "reply_message (Rejects m) = m"

text \<open>The waits of a store trace, in order.\<close>

fun waits :: "store_event list \<Rightarrow> nat list" where
  "waits [] = []"
| "waits (Wait ms # evs) = ms # waits evs"
| "waits (ev # evs) = waits evs"

fun is_db_write :: "event \<Rightarrow> bool" where
  "is_db_write (Db FindById ok) = False"
| "is_db_write (Db c ok) = True"
| "is_db_write ev = False"

definition no_db_write :: "event list \<Rightarrow> bool" where
  "no_db_write tr = (\<forall>ev \<in> set tr. \<not> is_db_write ev)"

text \<open>Every URL of \<open>urls\<close> is in the argument of some \<open>deleteFiles\<close> call of the trace.\<close>

definition rolled_back :: "string list \<Rightarrow> event list \<Rightarrow> bool" where
  "rolled_back urls tr = (\<forall>u \<in> set urls. \<exists>ev \<in> set tr. \<exists>us. ev = DeleteFiles us \<and> u \<in> set us)"

text \<open>
  The upload calls of a project request are numbered from 0: the main image first when
  there is one, then the gallery files in order.
\<close>

definition main_count :: "project_request \<Rightarrow> nat" where
  "main_count req = (case mainImageFile req of None \<Rightarrow> 0 | Some file \<Rightarrow> 1)"

definition main_files :: "project_request \<Rightarrow> upfile list" where
  "main_files req = (case mainImageFile req of None \<Rightarrow> [] | Some file \<Rightarrow> [file])"

text \<open>
  What the two \<open>catch\<close> blocks of the project handlers add to the trace after a gallery
  upload failed: the inner one rolls back and rethrows, the outer one rolls back again.
\<close>

definition rollback_twice :: "string list \<Rightarrow> event list" where
  "rollback_twice urls = (if urls = [] then [] else [DeleteFiles urls, DeleteFiles urls])"

fun the_url :: "js_error + string \<Rightarrow> string" where
  "the_url (Inr url) = url"
| "the_url (Inl e) = []"

text \<open>
  Gallery file number \<open>j\<close> (from 0) fails to upload after every earlier upload of the
  request succeeded; \<open>uploaded_before\<close> are the URLs of those earlier uploads.
\<close>

definition gallery_fails_at :: "'d env \<Rightarrow> project_request \<Rightarrow> nat \<Rightarrow> bool" where
  "gallery_fails_at env req j =
     (j < length (galleryFiles req)
      \<and> list_all (\<lambda>i. \<not> isl (upload_result env i)) [0..<main_count req + j]
      \<and> isl (upload_result env (main_count req + j)))"

definition uploaded_before :: "'d env \<Rightarrow> project_request \<Rightarrow> nat \<Rightarrow> string list" where
  "uploaded_before env req j = map (\<lambda>i. the_url (upload_result env i)) [0..<main_count req + j]"

text \<open>Every upload call of the request succeeds; \<open>all_uploaded\<close> are the resulting URLs.\<close>

definition all_uploads_succeed :: "'d env \<Rightarrow> project_request \<Rightarrow> bool" where
  "all_uploads_succeed env req =
     list_all (\<lambda>i. \<not> isl (upload_result env i))
       [0..<main_count req + length (galleryFiles req)]"

definition all_uploaded :: "'d env \<Rightarrow> project_request \<Rightarrow> string list" where
  "all_uploaded env req =
     map (\<lambda>i. the_url (upload_result env i)) [0..<main_count req + length (galleryFiles req)]"

definition rollback_once :: "string list \<Rightarrow> event list" where
  "rollback_once urls = (if urls = [] then [] else [DeleteFiles urls])"

text \<open>
  The files an update leaves without a reference: the gallery URLs the client did not
  keep, and the old main image when a new one was uploaded.
\<close>

definition orphans :: "project \<Rightarrow> project_request \<Rightarrow> string list" where
  "orphans proj req =
     filter (\<lambda>url. url \<notin> set (existing_images (body req))) (images proj)
     @ (if mainImageFile req \<noteq> None \<and> mainImage proj \<noteq> [] then [mainImage proj] else [])"

section \<open>Concrete inputs\<close>

definition photo :: buffer where
  "photo = \<lparr>blength = 200000, dims = Some (1000, 5000), enc = AsReceived\<rparr>"

definition icon_png :: buffer where
  "icon_png = \<lparr>blength = 2048, dims = Some (64, 64), enc = AsReceived\<rparr>"

definition panorama :: buffer where
  "panorama = \<lparr>blength = 300000, dims = Some (4000, 1000), enc = AsReceived\<rparr>"

definition broken :: buffer where
  "broken = \<lparr>blength = 150000, dims = None, enc = AsReceived\<rparr>"

text \<open>
  The image library's answers in the examples are part of their environment, like the
  store's replies: \<open>library_returns out\<close> is a run in which the library call the example
  makes returns \<open>out\<close>, \<open>library_throws\<close> one in which it throws. \<open>photo_jpeg\<close> and
  \<open>panorama_jpeg\<close> are the outputs for \<open>photo\<close> (1000 x 5000, not wider than 1200, so
  not resized) and \<open>panorama\<close> (4000 x 1000, scaled to 1200 x 300) with the
  compressor's options.
\<close>

definition photo_jpeg :: buffer where
  "photo_jpeg = \<lparr>blength = 50000, dims = Some (1000, 5000), enc = Jpeg 70 True\<rparr>"

definition panorama_jpeg :: buffer where
  "panorama_jpeg = \<lparr>blength = 40000, dims = Some (1200, 300), enc = Jpeg 70 True\<rparr>"

definition library_returns :: "buffer \<Rightarrow> sharp" where
  "library_returns out = (\<lambda>buf r j. Inr out)"

definition library_throws :: sharp where
  "library_throws = (\<lambda>buf r j. Inl (Error ''Input buffer contains unsupported image format''))"

definition url_of :: "string \<Rightarrow> string \<Rightarrow> string" where
  "url_of b key = ''https://abc.supabase.co/storage/v1/object/public/'' @ b @ ''/'' @ key"

text \<open>
  A store whose every upload is refused, and one that accepts everything; the buffer
  uploaded in the examples is \<open>photo\<close>.
\<close>

definition failing_service :: service where
  "failing_service =
     \<lparr>bucket = ''media'', lib = library_returns photo_jpeg,
      upload_reply = (\<lambda>n. if n = 3 then Rejects ''timeout'' else ReplyError ''bucket full''),
      getPublicUrl = url_of, remove_reply = (\<lambda>paths. Done)\<rparr>"

definition working_service :: service where
  "working_service =
     \<lparr>bucket = ''media'', lib = library_returns photo_jpeg, upload_reply = (\<lambda>n. Done),
      getPublicUrl = url_of, remove_reply = (\<lambda>paths. Done)\<rparr>"

definition file_named :: "string \<Rightarrow> upfile" where
  "file_named n = \<lparr>originalname = n, mimetype = ''image/png'', content = icon_png\<rparr>"

text \<open>
  A project request with a main image and three gallery files, in an environment where
  the third upload call (the second gallery file) fails.
\<close>

definition gallery_request :: project_request where
  "gallery_request =
     \<lparr>body = Map.empty, mainImageFile = Some (file_named ''m.png''),
      galleryFiles = [file_named ''g1.png'', file_named ''g2.png'', file_named ''g3.png''],
      permanent = None\<rparr>"

definition stored_project :: project where
  "stored_project =
     \<lparr>mainImage = url_of ''media'' ''projects/old_main.png'',
      images = [url_of ''media'' ''projects/old_a.png'']\<rparr>"

definition third_upload_fails :: "project env" where
  "third_upload_fails =
     \<lparr>upload_result =
        (\<lambda>i. if i = 2 then Inl (StoreError ''timeout'')
              else Inr (url_of ''media'' (''projects/new'' @ replicate i CHR ''x''))),
      find_result = Inr (Some stored_project),
      write_result = Inr True,
      json_error = (\<lambda>t. None)\<rparr>"

text \<open>
  A create request that sets a price and sends translations that are not JSON.
\<close>

definition priced_request :: project_request where
  "priced_request =
     \<lparr>body = [''translations'' \<mapsto> Single ''{'', ''price'' \<mapsto> Single ''5''],
      mainImageFile = Some (file_named ''m.png''), galleryFiles = [], permanent = None\<rparr>"

definition priced_valid_request :: project_request where
  "priced_valid_request =
     \<lparr>body = [''translations'' \<mapsto> Single ''{}'', ''price'' \<mapsto> Single ''5''],
      mainImageFile = Some (file_named ''m.png''), galleryFiles = [], permanent = None\<rparr>"

definition strict_json :: "project env" where
  "strict_json =
     \<lparr>upload_result = (\<lambda>i. Inr (url_of ''media'' ''projects/new.png'')),
      find_result = Inr None,
      write_result = Inr True,
      json_error = (\<lambda>t. if t = ''{}'' then None
                         else Some (SyntaxError ''Unexpected end of JSON input''))\<rparr>"

text \<open>A soft delete of a project id that no document has.\<close>

definition soft_delete_request :: project_request where
  "soft_delete_request =
     \<lparr>body = Map.empty, mainImageFile = None, galleryFiles = [], permanent = None\<rparr>"

definition no_such_project :: "project env" where
  "no_such_project =
     \<lparr>upload_result = (\<lambda>i. Inr (url_of ''media'' ''projects/new.png'')),
      find_result = Inr None,
      write_result = Inr False,
      json_error = (\<lambda>t. None)\<rparr>"

text \<open>
  A course whose image is in the store, a request that replaces it, and environments in
  which the upload succeeds and the database write throws or succeeds.
\<close>

definition stored_course :: course where
  "stored_course = \<lparr>course_image = url_of ''media'' ''courses/old.png''\<rparr>"

definition course_upload :: course_request where
  "course_upload = \<lparr>cbody = Map.empty, imageFile = Some (file_named ''c.png'')\<rparr>"

definition course_write_fails :: "course env" where
  "course_write_fails =
     \<lparr>upload_result = (\<lambda>i. Inr (url_of ''media'' ''courses/new.png'')),
      find_result = Inr (Some stored_course),
      write_result = Inl (DbError ''connection lost''),
      json_error = (\<lambda>t. None)\<rparr>"

definition stored_service :: service_doc where
  "stored_service = \<lparr>icon = url_of ''media'' ''services/old.png''\<rparr>"

definition service_upload :: service_request where
  "service_upload = \<lparr>sbody = Map.empty, iconFile = Some (file_named ''s.png'')\<rparr>"

definition service_all_ok :: "service_doc env" where
  "service_all_ok =
     \<lparr>upload_result = (\<lambda>i. Inr (url_of ''media'' ''services/new.png'')),
      find_result = Inr (Some stored_service),
      write_result = Inr True,
      json_error = (\<lambda>t. None)\<rparr>"

section \<open>The retry loop\<close>

lemma upload_attempt_refused:
  "upload_reply svc a \<noteq> Done \<Longrightarrow>
   upload_attempt svc b buf f m a =
     (Inl (StoreError (reply_message (upload_reply svc a))),
      [StoreUpload f (compressImage (lib svc) buf) m])"
  by (cases "upload_reply svc a") (simp_all add: upload_attempt_def)

lemma upload_attempt_accepted:
  "upload_reply svc a = Done \<Longrightarrow>
   upload_attempt svc b buf f m a =
     (Inr (getPublicUrl svc b f), [StoreUpload f (compressImage (lib svc) buf) m])"
  by (simp add: upload_attempt_def)

lemma upload_loop_refused_last:
  "upload_reply svc r \<noteq> Done \<Longrightarrow>
   upload_loop w svc b buf f m r r =
     (Inl (StoreError (reply_message (upload_reply svc r))),
      [StoreUpload f (compressImage (lib svc) buf) m])"
  by (simp add: upload_loop.simps [of w svc b buf f m r r] upload_attempt_refused)

lemma upload_loop_refused_step:
  "a < r \<Longrightarrow> upload_reply svc a \<noteq> Done \<Longrightarrow>
   upload_loop w svc b buf f m r a =
     (fst (upload_loop w svc b buf f m r (Suc a)),
      StoreUpload f (compressImage (lib svc) buf) m # Wait (w a)
        # snd (upload_loop w svc b buf f m r (Suc a)))"
  by (simp add: upload_loop.simps [of w svc b buf f m r a] upload_attempt_refused
        split: prod.splits)

lemma upload_loop_three_failures:
  assumes "upload_reply svc 1 \<noteq> Done" "upload_reply svc 2 \<noteq> Done" "upload_reply svc 3 \<noteq> Done"
  shows "upload_loop w svc b buf f m 3 1 =
     (Inl (StoreError (reply_message (upload_reply svc 3))),
      [StoreUpload f (compressImage (lib svc) buf) m, Wait (w 1),
       StoreUpload f (compressImage (lib svc) buf) m, Wait (w 2),
       StoreUpload f (compressImage (lib svc) buf) m])"
proof -
  have s2: "Suc 1 = 2" and s3: "Suc 2 = 3" by simp_all
  note l3 = upload_loop_refused_last [OF assms(3), of w b buf f m]
  have l2: "upload_loop w svc b buf f m 3 2 =
     (Inl (StoreError (reply_message (upload_reply svc 3))),
      [StoreUpload f (compressImage (lib svc) buf) m, Wait (w 2),
       StoreUpload f (compressImage (lib svc) buf) m])"
    using upload_loop_refused_step [of 2 3 svc w b buf f m] assms(2) by (simp only: s3 l3) simp
  show ?thesis
    using upload_loop_refused_step [of 1 3 svc w b buf f m] assms(1) by (simp only: s2 l2) simp
qed

text \<open>The first attempt that the store accepts ends the loop with the public URL.\<close>

lemma uploadFile_first_attempt:
  "upload_reply svc 1 = Done \<Longrightarrow>
   uploadFile svc buf f m =
     (Inr (Some (getPublicUrl svc (bucket svc) f)),
      [StoreUpload f (compressImage (lib svc) buf) m])"
  unfolding uploadFile_def
  by (simp add: upload_loop.simps [of _ svc "bucket svc" buf f m 3 1] upload_attempt_accepted)

text \<open>
  C6, as amended. When the store refuses all three attempts, \<open>uploadFile\<close> makes exactly
  three upload calls and throws the error of the third. Between attempts it sleeps
  \<open>2 ^ attempt\<close> seconds (2 s, then 4 s) in services/supabaseService.js, and \<open>attempt\<close>
  seconds (1 s, then 2 s) in the copy of the service kept in routes/services.js.
\<close>

theorem uploadFile_retry_exhaustion:
  assumes "\<forall>a \<in> {1, 2, 3}. upload_reply svc a \<noteq> Done"
  shows "uploadFile svc buf f m =
           (Inl (StoreError (reply_message (upload_reply svc 3))),
            [StoreUpload f (compressImage (lib svc) buf) m, Wait 2000,
             StoreUpload f (compressImage (lib svc) buf) m, Wait 4000,
             StoreUpload f (compressImage (lib svc) buf) m])
       \<and> uploadFile_copy svc buf f m =
           (Inl (StoreError (reply_message (upload_reply svc 3))),
            [StoreUpload f (compressImage (lib svc) buf) m, Wait 1000,
             StoreUpload f (compressImage (lib svc) buf) m, Wait 2000,
             StoreUpload f (compressImage (lib svc) buf) m])"
proof -
  from assms have a: "upload_reply svc 1 \<noteq> Done" "upload_reply svc 2 \<noteq> Done"
    "upload_reply svc 3 \<noteq> Done"
    by simp_all
  show ?thesis
    unfolding uploadFile_def uploadFile_copy_def upload_loop_three_failures [OF a] by simp
qed

text \<open>
  C6, witness: a store that answers with an error twice and then times out. The error
  thrown is the third one, the waits of the primary service are 2000 and 4000 ms.
\<close>

theorem uploadFile_retry_exhaustion_witness:
  "upload_reply failing_service 1 \<noteq> Done \<and> upload_reply failing_service 2 \<noteq> Done
   \<and> upload_reply failing_service 3 \<noteq> Done
   \<and> fst (uploadFile failing_service photo ''projects/p.png'' ''image/png'')
       = Inl (StoreError ''timeout'')
   \<and> waits (snd (uploadFile failing_service photo ''projects/p.png'' ''image/png''))
       = [2000, 4000]
   \<and> length (snd (uploadFile_copy failing_service photo ''projects/p.png'' ''image/png'')) = 5"
proof -
  have h: "\<forall>a \<in> {1, 2, 3}. upload_reply failing_service a \<noteq> Done"
    by (simp add: failing_service_def)
  show ?thesis
    using h uploadFile_retry_exhaustion [OF h, of photo "''projects/p.png''" "''image/png''"]
    by (simp add: failing_service_def)
qed

text \<open>
  C6, counterexample to the claim as stated: in the copy of the service kept in
  routes/services.js the waits between the three failed attempts are 1000 ms and 2000 ms,
  not \<open>2 ^ 1\<close> and \<open>2 ^ 2\<close> seconds.
\<close>

theorem uploadFile_copy_linear_wait:
  "waits (snd (uploadFile_copy failing_service photo ''services/s.png'' ''image/png''))
       = [1000, 2000]
   \<and> waits (snd (uploadFile_copy failing_service photo ''services/s.png'' ''image/png''))
       \<noteq> [2 ^ 1 * 1000, 2 ^ 2 * 1000]"
proof -
  have a: "upload_reply failing_service 1 \<noteq> Done" "upload_reply failing_service 2 \<noteq> Done"
       "upload_reply failing_service 3 \<noteq> Done"
    by (simp_all add: failing_service_def)
  show ?thesis
    unfolding uploadFile_copy_def upload_loop_three_failures [OF a] by simp
qed

section \<open>The compressor\<close>

text \<open>
  C7, as amended. A buffer under 100 KiB is returned as it is. A larger one is handed
  to the image library with the options \<open>width: 1200, withoutEnlargement\<close> and
  \<open>quality: 70, mozjpeg\<close>; if the library throws, the original buffer is returned, and
  if it returns, its output is returned. When the call returned and its output is what
  the library promises for these options, the result is a quality-70 JPEG at most
  1200 px wide: an image at most 1200 px wide keeps its dimensions, a wider one comes out
  exactly 1200 px wide with a height within one pixel of the proportional one. The bound
  is on the width, not on the longer side.
\<close>

theorem compressImage_policy:
  "(blength buf < 100 * 1024 \<longrightarrow> compressImage lib0 buf = buf)
   \<and> (lib0 buf compress_resize compress_jpeg = Inl e \<longrightarrow> compressImage lib0 buf = buf)
   \<and> (100 * 1024 \<le> blength buf \<and> lib0 buf compress_resize compress_jpeg = Inr out \<longrightarrow>
        compressImage lib0 buf = out)
   \<and> (100 * 1024 \<le> blength buf \<and> dims buf = Some (w, h)
        \<and> lib0 buf compress_resize compress_jpeg = Inr out
        \<and> as_requested compress_resize compress_jpeg (w, h) out \<longrightarrow>
        (\<exists>w' h'. dims (compressImage lib0 buf) = Some (w', h')
            \<and> w' \<le> 1200 \<and> (w \<le> 1200 \<longrightarrow> (w', h') = (w, h))
            \<and> (1200 < w \<longrightarrow> w' = 1200 \<and> near_ratio (w, h) 1200 h'))
        \<and> enc (compressImage lib0 buf) = Jpeg 70 True)"
proof (intro conjI impI)
  show "blength buf < 100 * 1024 \<Longrightarrow> compressImage lib0 buf = buf"
    by (simp add: compressImage_def)
  show "lib0 buf compress_resize compress_jpeg = Inl e \<Longrightarrow> compressImage lib0 buf = buf"
    by (simp add: compressImage_def)
  show "100 * 1024 \<le> blength buf \<and> lib0 buf compress_resize compress_jpeg = Inr out
        \<Longrightarrow> compressImage lib0 buf = out"
    by (simp add: compressImage_def)
next
  assume a: "100 * 1024 \<le> blength buf \<and> dims buf = Some (w, h)
        \<and> lib0 buf compress_resize compress_jpeg = Inr out
        \<and> as_requested compress_resize compress_jpeg (w, h) out"
  then have res: "compressImage lib0 buf = out"
    by (simp add: compressImage_def)
  from a have req: "as_requested compress_resize compress_jpeg (w, h) out" by simp
  show "enc (compressImage lib0 buf) = Jpeg 70 True"
    using req by (simp add: res as_requested_def compress_jpeg_def)
  show "\<exists>w' h'. dims (compressImage lib0 buf) = Some (w', h')
            \<and> w' \<le> 1200 \<and> (w \<le> 1200 \<longrightarrow> (w', h') = (w, h))
            \<and> (1200 < w \<longrightarrow> w' = 1200 \<and> near_ratio (w, h) 1200 h')"
  proof (cases "w \<le> 1200")
    case True
    with req have "dims out = Some (w, h)"
      by (simp add: as_requested_def compress_resize_def)
    with True show ?thesis by (simp add: res)
  next
    case False
    with req obtain w' h' where d: "dims out = Some (w', h')"
      and w': "w' = 1200" and n: "near_ratio (w, h) 1200 h'"
      by (auto simp: as_requested_def compress_resize_def split: option.splits)
    with False show ?thesis by (simp add: res)
  qed
qed

text \<open>
  C7, witness: a 2 KiB icon passes through; for an undecodable 150 kB buffer the
  library throws and the buffer is returned as it is; a 4000 x 1000 image of 300 kB, for
  which the library returns a 1200 x 300 quality-70 JPEG, comes out as that JPEG.
\<close>

theorem compressImage_policy_witness:
  "blength icon_png < 100 * 1024 \<and> compressImage library_throws icon_png = icon_png
   \<and> library_throws broken compress_resize compress_jpeg
       = Inl (Error ''Input buffer contains unsupported image format'')
   \<and> compressImage library_throws broken = broken
   \<and> 100 * 1024 \<le> blength panorama \<and> dims panorama = Some (4000, 1000)
   \<and> library_returns panorama_jpeg panorama compress_resize compress_jpeg = Inr panorama_jpeg
   \<and> as_requested compress_resize compress_jpeg (4000, 1000) panorama_jpeg
   \<and> compressImage (library_returns panorama_jpeg) panorama = panorama_jpeg
   \<and> dims (compressImage (library_returns panorama_jpeg) panorama) = Some (1200, 300)
   \<and> near_ratio (4000, 1000) 1200 300
   \<and> enc (compressImage (library_returns panorama_jpeg) panorama) = Jpeg 70 True"
proof -
  have small: "blength icon_png < 100 * 1024" by (simp add: icon_png_def)
  have throws: "library_throws broken compress_resize compress_jpeg
       = Inl (Error ''Input buffer contains unsupported image format'')"
    by (simp add: library_throws_def)
  have big: "100 * 1024 \<le> blength panorama" "dims panorama = Some (4000, 1000)"
    by (simp_all add: panorama_def)
  have ret: "library_returns panorama_jpeg panorama compress_resize compress_jpeg
       = Inr panorama_jpeg"
    by (simp add: library_returns_def)
  have req: "as_requested compress_resize compress_jpeg (4000, 1000) panorama_jpeg"
    by (simp add: as_requested_def near_ratio_def compress_resize_def compress_jpeg_def
        panorama_jpeg_def)
  have d: "dims panorama_jpeg = Some (1200, 300)" "enc panorama_jpeg = Jpeg 70 True"
    by (simp_all add: panorama_jpeg_def)
  have n: "near_ratio (4000, 1000) 1200 300" by (simp add: near_ratio_def)
  show ?thesis
    using small throws big ret req d n
      compressImage_policy [of icon_png library_throws
        "Error ''Input buffer contains unsupported image format''" panorama_jpeg 64 64]
      compressImage_policy [of broken library_throws
        "Error ''Input buffer contains unsupported image format''" panorama_jpeg 0 0]
      compressImage_policy [of panorama "library_returns panorama_jpeg"
        "Error ''Input buffer contains unsupported image format''" panorama_jpeg 4000 1000]
    by simp
qed

text \<open>
  C7, counterexample to the claim as stated: for a 1000 x 5000 image of 200 kB the
  library, asked for a width of 1200 without enlargement, returns a JPEG of the same
  dimensions, and the compressor returns it: the longer side is 5000 px, above 1200.
\<close>

theorem compressImage_tall_image:
  "100 * 1024 \<le> blength photo \<and> dims photo = Some (1000, 5000)
   \<and> as_requested compress_resize compress_jpeg (1000, 5000) photo_jpeg
   \<and> dims (compressImage (library_returns photo_jpeg) photo) = Some (1000, 5000)
   \<and> \<not> max (1000::nat) 5000 \<le> 1200"
  by (simp add: compressImage_def library_returns_def photo_def photo_jpeg_def
        as_requested_def compress_resize_def compress_jpeg_def)

section \<open>Deleting from the store\<close>

lemma split_at_no_occurrence:
  "\<not> includes_js s sep \<Longrightarrow> split_at sep cur s = [cur @ s]"
  by (induction s arbitrary: cur) auto

lemma split_at_nonempty: "split_at sep cur s \<noteq> []"
  by (induction sep cur s rule: split_at.induct) auto

lemma split_at_occurrence:
  "sep \<noteq> [] \<Longrightarrow> includes_js s sep \<Longrightarrow> 1 < length (split_at sep cur s)"
proof (induction s arbitrary: cur)
  case Nil
  then show ?case by simp
next
  case (Cons c cs)
  show ?case
  proof (cases "prefix sep (c # cs)")
    case True
    have "split_at sep [] (drop (length sep) (c # cs)) \<noteq> []" by (rule split_at_nonempty)
    then have "0 < length (split_at sep [] (drop (length sep) (c # cs)))" by blast
    with True Cons.prems show ?thesis by simp
  next
    case False
    with Cons show ?thesis by simp
  qed
qed

lemma deleteFile_outside_bucket:
  assumes "fileUrl \<noteq> []" "\<not> includes_js fileUrl (bucket svc @ ''/'')"
  shows "snd (deleteFile svc fileUrl) = [StoreRemove [fileUrl]]"
  using assms
  by (simp add: deleteFile_def deleteFile_try_def split_js_def split_at_no_occurrence
      remove_call_def split: store_reply.splits)

lemma deleteFile_never_raises: "fst (deleteFile svc fileUrl) = Inr ()"
  by (simp add: deleteFile_def split: prod.splits sum.splits)

lemma deleteFiles_never_raises: "fst (deleteFiles svc urls) = Inr ()"
  by (simp add: deleteFiles_def split: prod.splits sum.splits)

lemma url_path_outside_bucket:
  "\<not> includes_js url (bucket svc @ ''/'') \<Longrightarrow> url_path svc url = None"
  by (simp add: url_path_def split_js_def split_at_no_occurrence)

lemma deleteFiles_skips_outside_bucket:
  assumes "\<not> includes_js url (bucket svc @ ''/'')"
  shows "deleteFiles svc (pre @ url # post) = (if pre @ post = [] then (Inr (), []) else deleteFiles svc (pre @ post))"
  using assms
  by (simp add: deleteFiles_def deleteFiles_try_def url_path_outside_bucket map_filter_def)

text \<open>
  C8: a URL that does not contain \<open>bucket/\<close> makes \<open>deleteFiles\<close> skip it, and neither
  delete function throws (the three lemmas above); but \<open>deleteFile\<close> has no such guard.
  For the bucket \<open>media\<close> and a URL of another host, \<open>split\<close> returns the URL itself as
  its only piece, \<open>pop()\<close> takes it, and \<open>remove\<close> is called with the whole URL as path.
\<close>

theorem deleteFile_foreign_url:
  "includes_js ''https://cdn.example.com/a.png'' (bucket working_service @ ''/'') = False
   \<and> deleteFile working_service ''https://cdn.example.com/a.png''
       = (Inr (), [StoreRemove [''https://cdn.example.com/a.png'']])"
  by (simp add: working_service_def deleteFile_def deleteFile_try_def split_js_def
        remove_call_def)

section \<open>Project routes: gallery upload failure\<close>

lemma create_gallery_fails:
  assumes "j < length files"
    and "list_all (\<lambda>i. \<not> isl (upload_result env i)) [ncalls s..<ncalls s + j]"
    and "upload_result env (ncalls s + j) = Inl e"
  shows "create_gallery env files imgs up s =
     (Inl (Error (''Image upload failed: '' @ message e)),
      up @ map (\<lambda>i. the_url (upload_result env i)) [ncalls s..<ncalls s + j],
      rollbackUploads (up @ map (\<lambda>i. the_url (upload_result env i)) [ncalls s..<ncalls s + j])
        (s\<lparr>ncalls := ncalls s + Suc j,
           trace := trace s @ map (\<lambda>f. UploadFile (originalname f)) (take (Suc j) files)\<rparr>))"
  using assms
proof (induction files arbitrary: j s imgs up)
  case Nil
  then show ?case by simp
next
  case (Cons f0 files)
  show ?case
  proof (cases j)
    case 0
    with Cons.prems show ?thesis by (simp add: call_uploadFile_def)
  next
    case (Suc k)
    from Cons.prems(2) Suc have ok: "\<not> isl (upload_result env (ncalls s))"
      and rest: "list_all (\<lambda>i. \<not> isl (upload_result env i)) [Suc (ncalls s)..<Suc (ncalls s) + k]"
      by (simp_all add: upt_conv_Cons del: upt_Suc)
    from ok obtain url where url: "upload_result env (ncalls s) = Inr url"
      by (cases "upload_result env (ncalls s)") auto
    let ?s1 = "s\<lparr>ncalls := Suc (ncalls s), trace := trace s @ [UploadFile (originalname f0)]\<rparr>"
    have k: "k < length files" using Cons.prems(1) Suc by simp
    have f: "upload_result env (ncalls ?s1 + k) = Inl e" using Cons.prems(3) Suc by simp
    have r: "list_all (\<lambda>i. \<not> isl (upload_result env i)) [ncalls ?s1..<ncalls ?s1 + k]"
      using rest by simp
    note ih = Cons.IH [OF k r f, of "imgs @ [url]" "up @ [url]"]
    show ?thesis
      using ih url Suc by (simp add: call_uploadFile_def upt_conv_Cons del: upt_Suc)
  qed
qed

lemma update_gallery_fails:
  assumes "j < length files"
    and "list_all (\<lambda>i. \<not> isl (upload_result env i)) [ncalls s..<ncalls s + j]"
    and "upload_result env (ncalls s + j) = Inl e"
  shows "update_gallery env files imgs up s =
     (Inl (Error (''Gallery upload failed: '' @ message e)),
      up @ map (\<lambda>i. the_url (upload_result env i)) [ncalls s..<ncalls s + j],
      rollbackUploads (up @ map (\<lambda>i. the_url (upload_result env i)) [ncalls s..<ncalls s + j])
        (s\<lparr>ncalls := ncalls s + Suc j,
           trace := trace s @ map (\<lambda>f. UploadFile (originalname f)) (take (Suc j) files)\<rparr>))"
  using assms
proof (induction files arbitrary: j s imgs up)
  case Nil
  then show ?case by simp
next
  case (Cons f0 files)
  show ?case
  proof (cases j)
    case 0
    with Cons.prems show ?thesis by (simp add: call_uploadFile_def)
  next
    case (Suc k)
    from Cons.prems(2) Suc have ok: "\<not> isl (upload_result env (ncalls s))"
      and rest: "list_all (\<lambda>i. \<not> isl (upload_result env i)) [Suc (ncalls s)..<Suc (ncalls s) + k]"
      by (simp_all add: upt_conv_Cons del: upt_Suc)
    from ok obtain url where url: "upload_result env (ncalls s) = Inr url"
      by (cases "upload_result env (ncalls s)") auto
    let ?s1 = "s\<lparr>ncalls := Suc (ncalls s), trace := trace s @ [UploadFile (originalname f0)]\<rparr>"
    have k: "k < length files" using Cons.prems(1) Suc by simp
    have f: "upload_result env (ncalls ?s1 + k) = Inl e" using Cons.prems(3) Suc by simp
    have r: "list_all (\<lambda>i. \<not> isl (upload_result env i)) [ncalls ?s1..<ncalls ?s1 + k]"
      using rest by simp
    note ih = Cons.IH [OF k r f, of "imgs @ [url]" "up @ [url]"]
    show ?thesis
      using ih url Suc by (simp add: call_uploadFile_def upt_conv_Cons del: upt_Suc)
  qed
qed

lemma create_project_gallery_failure:
  assumes p: "parse_create env (body req) = Inr pd"
    and g: "gallery_fails_at env req j"
  shows "create_project env req =
     map (\<lambda>f. UploadFile (originalname f)) (main_files req @ take (Suc j) (galleryFiles req))
     @ rollback_twice (uploaded_before env req j) @ [Respond 500]"
proof -
  from g have j: "j < length (galleryFiles req)"
    and ok: "list_all (\<lambda>i. \<not> isl (upload_result env i)) [0..<main_count req + j]"
    and bad: "isl (upload_result env (main_count req + j))"
    by (simp_all add: gallery_fails_at_def)
  from bad obtain e where e: "upload_result env (main_count req + j) = Inl e"
    by (cases "upload_result env (main_count req + j)") auto
  show ?thesis
  proof (cases "mainImageFile req")
    case None
    then have m: "main_count req = 0" by (simp add: main_count_def)
    have "create_gallery env (galleryFiles req) [] [] start =
       (Inl (Error (''Image upload failed: '' @ message e)),
        [] @ map (\<lambda>i. the_url (upload_result env i)) [ncalls start..<ncalls start + j],
        rollbackUploads ([] @ map (\<lambda>i. the_url (upload_result env i)) [ncalls start..<ncalls start + j])
          (start\<lparr>ncalls := ncalls start + Suc j,
             trace := trace start @ map (\<lambda>f. UploadFile (originalname f)) (take (Suc j) (galleryFiles req))\<rparr>))"
      using j ok e m by (intro create_gallery_fails) (simp_all add: start_def)
    then show ?thesis
      using None p m
      by (simp add: create_project_def create_project_try_def create_main_def main_files_def
          uploaded_before_def rollbackUploads_def rollback_twice_def log_def start_def)
  next
    case (Some mf)
    then have m: "main_count req = 1" by (simp add: main_count_def)
    from ok m have "\<not> isl (upload_result env 0)"
      and rest: "list_all (\<lambda>i. \<not> isl (upload_result env i)) [Suc 0..<Suc 0 + j]"
      by (simp_all add: upt_conv_Cons del: upt_Suc)
    then obtain url where url: "upload_result env 0 = Inr url"
      by (cases "upload_result env 0") auto
    let ?s1 = "start\<lparr>ncalls := Suc (ncalls start), trace := trace start @ [UploadFile (originalname mf)]\<rparr>"
    have "create_gallery env (galleryFiles req) [] [url] ?s1 =
       (Inl (Error (''Image upload failed: '' @ message e)),
        [url] @ map (\<lambda>i. the_url (upload_result env i)) [ncalls ?s1..<ncalls ?s1 + j],
        rollbackUploads ([url] @ map (\<lambda>i. the_url (upload_result env i)) [ncalls ?s1..<ncalls ?s1 + j])
          (?s1\<lparr>ncalls := ncalls ?s1 + Suc j,
             trace := trace ?s1 @ map (\<lambda>f. UploadFile (originalname f)) (take (Suc j) (galleryFiles req))\<rparr>))"
      using j rest e m by (intro create_gallery_fails) (simp_all add: start_def)
    then show ?thesis
      using Some p m url
      by (simp add: create_project_def create_project_try_def create_main_def main_files_def
          call_uploadFile_def uploaded_before_def rollbackUploads_def rollback_twice_def log_def
          start_def upt_conv_Cons del: upt_Suc)
  qed
qed

lemma update_project_gallery_failure:
  assumes f: "find_result env = Inr (Some proj)"
    and p: "parse_update env (body req) = Inr pd"
    and g: "gallery_fails_at env req j"
  shows "update_project env req =
     Db FindById True
     # map (\<lambda>f. UploadFile (originalname f)) (main_files req @ take (Suc j) (galleryFiles req))
     @ rollback_twice (uploaded_before env req j) @ [Respond 500]"
proof -
  from g have j: "j < length (galleryFiles req)"
    and ok: "list_all (\<lambda>i. \<not> isl (upload_result env i)) [0..<main_count req + j]"
    and bad: "isl (upload_result env (main_count req + j))"
    by (simp_all add: gallery_fails_at_def)
  from bad obtain e where e: "upload_result env (main_count req + j) = Inl e"
    by (cases "upload_result env (main_count req + j)") auto
  let ?s0 = "log (Db FindById True) start"
  have n0: "ncalls ?s0 = 0" by (simp add: log_def start_def)
  show ?thesis
  proof (cases "mainImageFile req")
    case None
    then have m: "main_count req = 0" by (simp add: main_count_def)
    have "update_gallery env (galleryFiles req) (existing_images (body req)) [] ?s0 =
       (Inl (Error (''Gallery upload failed: '' @ message e)),
        [] @ map (\<lambda>i. the_url (upload_result env i)) [ncalls ?s0..<ncalls ?s0 + j],
        rollbackUploads ([] @ map (\<lambda>i. the_url (upload_result env i)) [ncalls ?s0..<ncalls ?s0 + j])
          (?s0\<lparr>ncalls := ncalls ?s0 + Suc j,
             trace := trace ?s0 @ map (\<lambda>f. UploadFile (originalname f)) (take (Suc j) (galleryFiles req))\<rparr>))"
      using j ok e m n0 by (intro update_gallery_fails) simp_all
    then show ?thesis
      using None p m f
      by (simp add: update_project_def update_project_try_def update_found_def update_main_def
          main_files_def uploaded_before_def rollbackUploads_def rollback_twice_def log_def start_def)
  next
    case (Some mf)
    then have m: "main_count req = 1" by (simp add: main_count_def)
    from ok m have "\<not> isl (upload_result env 0)"
      and rest: "list_all (\<lambda>i. \<not> isl (upload_result env i)) [Suc 0..<Suc 0 + j]"
      by (simp_all add: upt_conv_Cons del: upt_Suc)
    then obtain url where url: "upload_result env 0 = Inr url"
      by (cases "upload_result env 0") auto
    let ?s1 = "?s0\<lparr>ncalls := Suc (ncalls ?s0), trace := trace ?s0 @ [UploadFile (originalname mf)]\<rparr>"
    have "update_gallery env (galleryFiles req) (existing_images (body req)) [url] ?s1 =
       (Inl (Error (''Gallery upload failed: '' @ message e)),
        [url] @ map (\<lambda>i. the_url (upload_result env i)) [ncalls ?s1..<ncalls ?s1 + j],
        rollbackUploads ([url] @ map (\<lambda>i. the_url (upload_result env i)) [ncalls ?s1..<ncalls ?s1 + j])
          (?s1\<lparr>ncalls := ncalls ?s1 + Suc j,
             trace := trace ?s1 @ map (\<lambda>f. UploadFile (originalname f)) (take (Suc j) (galleryFiles req))\<rparr>))"
      using j rest e m n0 by (intro update_gallery_fails) simp_all
    then show ?thesis
      using Some p m url f
      by (simp add: update_project_def update_project_try_def update_found_def update_main_def
          main_files_def call_uploadFile_def uploaded_before_def rollbackUploads_def
          rollback_twice_def log_def start_def upt_conv_Cons del: upt_Suc)
  qed
qed

lemma rolled_back_twice: "rolled_back urls (pre @ rollback_twice urls @ post)"
  by (auto simp: rolled_back_def rollback_twice_def)

lemma rolled_back_twice_Cons: "rolled_back urls (ev # pre @ rollback_twice urls @ post)"
  by (auto simp: rolled_back_def rollback_twice_def)

lemma no_db_write_uploads: "no_db_write (map (\<lambda>f. UploadFile (originalname f)) fs)"
  by (auto simp: no_db_write_def)

lemma no_db_write_rollback_twice: "no_db_write (rollback_twice urls)"
  by (auto simp: no_db_write_def rollback_twice_def)

lemma no_db_write_append: "no_db_write (xs @ ys) = (no_db_write xs \<and> no_db_write ys)"
  by (auto simp: no_db_write_def)

lemma no_db_write_Cons: "no_db_write (ev # evs) = (\<not> is_db_write ev \<and> no_db_write evs)"
  by (auto simp: no_db_write_def)

lemma no_db_write_Nil: "no_db_write []"
  by (simp add: no_db_write_def)

text \<open>
  C1. In a project create or update request that reaches the upload phase (the body
  parsed; for an update the project was found), let gallery file \<open>j\<close> fail to upload after
  the main image, if any, and the gallery files before it were uploaded. Then every URL
  uploaded so far is in the argument of a \<open>deleteFiles\<close> call, and the trace holds no
  database write.
\<close>

theorem gallery_failure_rolls_back:
  assumes "gallery_fails_at env req j"
  shows "(\<not> isl (parse_create env (body req)) \<longrightarrow>
            rolled_back (uploaded_before env req j) (create_project env req)
            \<and> no_db_write (create_project env req))
       \<and> (find_result env = Inr (Some proj) \<and> \<not> isl (parse_update env (body req)) \<longrightarrow>
            rolled_back (uploaded_before env req j) (update_project env req)
            \<and> no_db_write (update_project env req))"
proof (intro conjI impI)
  assume "\<not> isl (parse_create env (body req))"
  then obtain pd where p: "parse_create env (body req) = Inr pd"
    by (cases "parse_create env (body req)") auto
  note t = create_project_gallery_failure [OF p assms]
  show "rolled_back (uploaded_before env req j) (create_project env req)"
    unfolding t by (rule rolled_back_twice)
  show "no_db_write (create_project env req)"
    unfolding t
    by (simp add: no_db_write_append no_db_write_uploads no_db_write_rollback_twice
        no_db_write_Cons no_db_write_Nil)
next
  assume a: "find_result env = Inr (Some proj) \<and> \<not> isl (parse_update env (body req))"
  then obtain pd where p: "parse_update env (body req) = Inr pd"
    by (cases "parse_update env (body req)") auto
  from a have f: "find_result env = Inr (Some proj)" by simp
  note t = update_project_gallery_failure [OF f p assms]
  show "rolled_back (uploaded_before env req j) (update_project env req)"
    unfolding t by (rule rolled_back_twice_Cons)
  show "no_db_write (update_project env req)"
    unfolding t
    by (simp add: no_db_write_append no_db_write_uploads no_db_write_rollback_twice
        no_db_write_Cons no_db_write_Nil)
qed

text \<open>
  C1, witness: a request with a main image and three gallery files whose third upload
  call (the second gallery file) fails. The two URLs uploaded before are rolled back and
  nothing is written, on create and on update.
\<close>

theorem gallery_failure_rolls_back_witness:
  "gallery_fails_at third_upload_fails gallery_request 1
   \<and> \<not> isl (parse_create third_upload_fails (body gallery_request))
   \<and> find_result third_upload_fails = Inr (Some stored_project)
   \<and> \<not> isl (parse_update third_upload_fails (body gallery_request))
   \<and> uploaded_before third_upload_fails gallery_request 1
       = [''https://abc.supabase.co/storage/v1/object/public/media/projects/new'',
          ''https://abc.supabase.co/storage/v1/object/public/media/projects/newx'']
   \<and> rolled_back (uploaded_before third_upload_fails gallery_request 1)
         (create_project third_upload_fails gallery_request)
   \<and> no_db_write (create_project third_upload_fails gallery_request)
   \<and> rolled_back (uploaded_before third_upload_fails gallery_request 1)
         (update_project third_upload_fails gallery_request)
   \<and> no_db_write (update_project third_upload_fails gallery_request)"
proof -
  have g: "gallery_fails_at third_upload_fails gallery_request 1"
    by code_simp
  have c: "\<not> isl (parse_create third_upload_fails (body gallery_request))"
    by code_simp
  have f: "find_result third_upload_fails = Inr (Some stored_project)"
    by (simp add: third_upload_fails_def)
  have u: "\<not> isl (parse_update third_upload_fails (body gallery_request))"
    by code_simp
  have b: "uploaded_before third_upload_fails gallery_request 1
       = [''https://abc.supabase.co/storage/v1/object/public/media/projects/new'',
          ''https://abc.supabase.co/storage/v1/object/public/media/projects/newx'']"
    by code_simp
  show ?thesis
    using g c f u b gallery_failure_rolls_back [OF g, of stored_project]
    by simp
qed

text \<open>
  C5: on the same request the create handler passes the two uploaded URLs to
  \<open>deleteFiles\<close> twice: the inner \<open>catch\<close> of the gallery loop rolls back and rethrows,
  and the outer \<open>catch\<close> rolls the same list back again.
\<close>

theorem project_create_double_rollback:
  "create_project third_upload_fails gallery_request =
     [UploadFile ''m.png'', UploadFile ''g1.png'', UploadFile ''g2.png'',
      DeleteFiles [''https://abc.supabase.co/storage/v1/object/public/media/projects/new'',
                   ''https://abc.supabase.co/storage/v1/object/public/media/projects/newx''],
      DeleteFiles [''https://abc.supabase.co/storage/v1/object/public/media/projects/new'',
                   ''https://abc.supabase.co/storage/v1/object/public/media/projects/newx''],
      Respond 500]"
  by code_simp

section \<open>Project routes: the database write\<close>

lemma create_gallery_succeeds:
  assumes "list_all (\<lambda>i. \<not> isl (upload_result env i)) [ncalls s..<ncalls s + length files]"
  shows "create_gallery env files imgs up s =
     (Inr (imgs @ map (\<lambda>i. the_url (upload_result env i)) [ncalls s..<ncalls s + length files]),
      up @ map (\<lambda>i. the_url (upload_result env i)) [ncalls s..<ncalls s + length files],
      s\<lparr>ncalls := ncalls s + length files,
        trace := trace s @ map (\<lambda>f. UploadFile (originalname f)) files\<rparr>)"
  using assms
proof (induction files arbitrary: s imgs up)
  case Nil
  then show ?case by simp
next
  case (Cons f0 files)
  from Cons.prems have ok: "\<not> isl (upload_result env (ncalls s))"
    and rest: "list_all (\<lambda>i. \<not> isl (upload_result env i))
                 [Suc (ncalls s)..<Suc (ncalls s) + length files]"
    by (simp_all add: upt_conv_Cons del: upt_Suc)
  from ok obtain url where url: "upload_result env (ncalls s) = Inr url"
    by (cases "upload_result env (ncalls s)") auto
  let ?s1 = "s\<lparr>ncalls := Suc (ncalls s), trace := trace s @ [UploadFile (originalname f0)]\<rparr>"
  have r: "list_all (\<lambda>i. \<not> isl (upload_result env i)) [ncalls ?s1..<ncalls ?s1 + length files]"
    using rest by simp
  note ih = Cons.IH [OF r, of "imgs @ [url]" "up @ [url]"]
  show ?case
    using ih url by (simp add: call_uploadFile_def upt_conv_Cons del: upt_Suc)
qed

lemma update_gallery_succeeds:
  assumes "list_all (\<lambda>i. \<not> isl (upload_result env i)) [ncalls s..<ncalls s + length files]"
  shows "update_gallery env files imgs up s =
     (Inr (imgs @ map (\<lambda>i. the_url (upload_result env i)) [ncalls s..<ncalls s + length files]),
      up @ map (\<lambda>i. the_url (upload_result env i)) [ncalls s..<ncalls s + length files],
      s\<lparr>ncalls := ncalls s + length files,
        trace := trace s @ map (\<lambda>f. UploadFile (originalname f)) files\<rparr>)"
  using assms
proof (induction files arbitrary: s imgs up)
  case Nil
  then show ?case by simp
next
  case (Cons f0 files)
  from Cons.prems have ok: "\<not> isl (upload_result env (ncalls s))"
    and rest: "list_all (\<lambda>i. \<not> isl (upload_result env i))
                 [Suc (ncalls s)..<Suc (ncalls s) + length files]"
    by (simp_all add: upt_conv_Cons del: upt_Suc)
  from ok obtain url where url: "upload_result env (ncalls s) = Inr url"
    by (cases "upload_result env (ncalls s)") auto
  let ?s1 = "s\<lparr>ncalls := Suc (ncalls s), trace := trace s @ [UploadFile (originalname f0)]\<rparr>"
  have r: "list_all (\<lambda>i. \<not> isl (upload_result env i)) [ncalls ?s1..<ncalls ?s1 + length files]"
    using rest by simp
  note ih = Cons.IH [OF r, of "imgs @ [url]" "up @ [url]"]
  show ?case
    using ih url by (simp add: call_uploadFile_def upt_conv_Cons del: upt_Suc)
qed

text \<open>
  When every upload succeeded and \<open>save\<close> throws, the create handler rolls the whole
  batch back, once.
\<close>

lemma create_project_save_failure:
  assumes p: "parse_create env (body req) = Inr pd"
    and u: "all_uploads_succeed env req"
    and w: "write_result env = Inl e"
  shows "create_project env req =
     map (\<lambda>f. UploadFile (originalname f)) (main_files req @ galleryFiles req)
     @ [Db Save False] @ rollback_once (all_uploaded env req) @ [Respond 500]"
proof (cases "mainImageFile req")
  case None
  then have m: "main_count req = 0" by (simp add: main_count_def)
  have "list_all (\<lambda>i. \<not> isl (upload_result env i))
          [ncalls start..<ncalls start + length (galleryFiles req)]"
    using u m by (simp add: all_uploads_succeed_def start_def)
  note g = create_gallery_succeeds [OF this, of "[]" "[]"]
  show ?thesis
    using None p m w g
    by (simp add: create_project_def create_project_try_def create_main_def main_files_def
        create_save_def all_uploaded_def rollbackUploads_def rollback_once_def log_def start_def)
next
  case (Some mf)
  then have m: "main_count req = 1" by (simp add: main_count_def)
  from u m have "\<not> isl (upload_result env 0)"
    and rest: "list_all (\<lambda>i. \<not> isl (upload_result env i))
                 [Suc 0..<Suc 0 + length (galleryFiles req)]"
    by (simp_all add: all_uploads_succeed_def upt_conv_Cons del: upt_Suc)
  then obtain url where url: "upload_result env 0 = Inr url"
    by (cases "upload_result env 0") auto
  let ?s1 = "start\<lparr>ncalls := Suc (ncalls start),
                    trace := trace start @ [UploadFile (originalname mf)]\<rparr>"
  have "list_all (\<lambda>i. \<not> isl (upload_result env i))
          [ncalls ?s1..<ncalls ?s1 + length (galleryFiles req)]"
    using rest by (simp add: start_def)
  note g = create_gallery_succeeds [OF this, of "[]" "[url]"]
  show ?thesis
    using Some p m w url g
    by (simp add: create_project_def create_project_try_def create_main_def main_files_def
        call_uploadFile_def create_save_def all_uploaded_def rollbackUploads_def
        rollback_once_def log_def start_def upt_conv_Cons del: upt_Suc)
qed

text \<open>
  A successful update deletes the orphans after \<open>findByIdAndUpdate\<close> returned; when the
  update throws, only the new uploads are rolled back and no old file is deleted.
\<close>

lemma update_project_success:
  assumes f: "find_result env = Inr (Some proj)"
    and p: "parse_update env (body req) = Inr pd"
    and u: "all_uploads_succeed env req"
    and w: "write_result env = Inr True"
  shows "update_project env req =
     Db FindById True
     # map (\<lambda>f. UploadFile (originalname f)) (main_files req @ galleryFiles req)
     @ [Db FindByIdAndUpdate True] @ rollback_once (orphans proj req) @ [Respond 200]"
proof (cases "mainImageFile req")
  case None
  then have m: "main_count req = 0" by (simp add: main_count_def)
  let ?s0 = "log (Db FindById True) start"
  have "list_all (\<lambda>i. \<not> isl (upload_result env i))
          [ncalls ?s0..<ncalls ?s0 + length (galleryFiles req)]"
    using u m by (simp add: all_uploads_succeed_def start_def log_def)
  note g = update_gallery_succeeds [OF this, of "existing_images (body req)" "[]"]
  show ?thesis
    using None p m w f g
    by (simp add: update_project_def update_project_try_def update_found_def update_main_def
        main_files_def update_write_def orphans_def rollback_once_def log_def start_def)
next
  case (Some mf)
  then have m: "main_count req = 1" by (simp add: main_count_def)
  let ?s0 = "log (Db FindById True) start"
  from u m have "\<not> isl (upload_result env 0)"
    and rest: "list_all (\<lambda>i. \<not> isl (upload_result env i))
                 [Suc 0..<Suc 0 + length (galleryFiles req)]"
    by (simp_all add: all_uploads_succeed_def upt_conv_Cons del: upt_Suc)
  then obtain url where url: "upload_result env 0 = Inr url"
    by (cases "upload_result env 0") auto
  let ?s1 = "?s0\<lparr>ncalls := Suc (ncalls ?s0),
                  trace := trace ?s0 @ [UploadFile (originalname mf)]\<rparr>"
  have "list_all (\<lambda>i. \<not> isl (upload_result env i))
          [ncalls ?s1..<ncalls ?s1 + length (galleryFiles req)]"
    using rest by (simp add: start_def log_def)
  note g = update_gallery_succeeds [OF this, of "existing_images (body req)" "[url]"]
  show ?thesis
    using Some p m w url f g
    by (simp add: update_project_def update_project_try_def update_found_def update_main_def
        main_files_def call_uploadFile_def update_write_def orphans_def rollback_once_def
        log_def start_def upt_conv_Cons del: upt_Suc)
qed

lemma update_project_write_failure:
  assumes f: "find_result env = Inr (Some proj)"
    and p: "parse_update env (body req) = Inr pd"
    and u: "all_uploads_succeed env req"
    and w: "write_result env = Inl e"
  shows "update_project env req =
     Db FindById True
     # map (\<lambda>f. UploadFile (originalname f)) (main_files req @ galleryFiles req)
     @ [Db FindByIdAndUpdate False] @ rollback_once (all_uploaded env req) @ [Respond 500]"
proof (cases "mainImageFile req")
  case None
  then have m: "main_count req = 0" by (simp add: main_count_def)
  let ?s0 = "log (Db FindById True) start"
  have "list_all (\<lambda>i. \<not> isl (upload_result env i))
          [ncalls ?s0..<ncalls ?s0 + length (galleryFiles req)]"
    using u m by (simp add: all_uploads_succeed_def start_def log_def)
  note g = update_gallery_succeeds [OF this, of "existing_images (body req)" "[]"]
  show ?thesis
    using None p m w f g
    by (simp add: update_project_def update_project_try_def update_found_def update_main_def
        main_files_def update_write_def all_uploaded_def rollbackUploads_def rollback_once_def
        log_def start_def)
next
  case (Some mf)
  then have m: "main_count req = 1" by (simp add: main_count_def)
  let ?s0 = "log (Db FindById True) start"
  from u m have "\<not> isl (upload_result env 0)"
    and rest: "list_all (\<lambda>i. \<not> isl (upload_result env i))
                 [Suc 0..<Suc 0 + length (galleryFiles req)]"
    by (simp_all add: all_uploads_succeed_def upt_conv_Cons del: upt_Suc)
  then obtain url where url: "upload_result env 0 = Inr url"
    by (cases "upload_result env 0") auto
  let ?s1 = "?s0\<lparr>ncalls := Suc (ncalls ?s0),
                  trace := trace ?s0 @ [UploadFile (originalname mf)]\<rparr>"
  have "list_all (\<lambda>i. \<not> isl (upload_result env i))
          [ncalls ?s1..<ncalls ?s1 + length (galleryFiles req)]"
    using rest by (simp add: start_def log_def)
  note g = update_gallery_succeeds [OF this, of "existing_images (body req)" "[url]"]
  show ?thesis
    using Some p m w url f g
    by (simp add: update_project_def update_project_try_def update_found_def update_main_def
        main_files_def call_uploadFile_def update_write_def all_uploaded_def rollbackUploads_def
        rollback_once_def log_def start_def upt_conv_Cons del: upt_Suc)
qed

section \<open>The create handler's field loop\<close>

lemma create_fields_defined:
  "\<exists>field \<in> set fs. b field \<noteq> None \<Longrightarrow>
   create_fields b fs = Inl (ReferenceError ''updates is not defined'')"
  by (induction fs) auto

text \<open>
  C10, as amended. When the body of a project create request defines one of the fields
  price, currency, bedrooms, bathrooms, area, areaUnit, type, status or badge, the
  handler throws before any upload: the trace is the 500 response alone, so no file is
  uploaded and no document is saved. The error is the \<open>ReferenceError\<close> for \<open>updates\<close>
  unless \<open>JSON.parse\<close> of the translations has thrown before the field loop is reached.
\<close>

theorem create_with_scalar_field_fails:
  assumes "\<exists>field \<in> set fields_list. body req field \<noteq> None"
  shows "create_project env req = [Respond 500]
       \<and> isl (fst (create_project_try env req))
       \<and> (\<not> isl (parse_translations env (body req)) \<longrightarrow>
            fst (create_project_try env req) = Inl (ReferenceError ''updates is not defined''))"
proof -
  note cf = create_fields_defined [OF assms]
  show ?thesis
    by (cases "parse_translations env (body req)")
      (simp_all add: create_project_def create_project_try_def parse_create_def cf
        rollbackUploads_def log_def start_def)
qed

text \<open>
  C10, witness: a create request with valid translations, a price and a main image
  file.
\<close>

theorem create_with_scalar_field_fails_witness:
  "(\<exists>field \<in> set fields_list. body priced_valid_request field \<noteq> None)
   \<and> \<not> isl (parse_translations strict_json (body priced_valid_request))
   \<and> create_project strict_json priced_valid_request = [Respond 500]
   \<and> fst (create_project_try strict_json priced_valid_request)
       = Inl (ReferenceError ''updates is not defined'')"
proof -
  have h: "\<exists>field \<in> set fields_list. body priced_valid_request field \<noteq> None"
    by (simp add: fields_list_def priced_valid_request_def)
  have t: "\<not> isl (parse_translations strict_json (body priced_valid_request))"
    by (simp add: parse_translations_def priced_valid_request_def strict_json_def JSON_parse_def)
  show ?thesis
    using h t create_with_scalar_field_fails [OF h, of strict_json] by simp
qed

text \<open>
  C10, counterexample to the claim as stated: the request sets a price, but its
  translations are not JSON, so the handler throws the \<open>SyntaxError\<close> of \<open>JSON.parse\<close>
  and never reaches the assignment to \<open>updates\<close>.
\<close>

theorem create_malformed_translations:
  "body priced_request ''price'' \<noteq> None
   \<and> fst (create_project_try strict_json priced_request)
       = Inl (SyntaxError ''Unexpected end of JSON input'')"
  by code_simp

section \<open>Requests for an id that no document has\<close>

lemma update_project_not_found:
  "find_result env = Inr None \<Longrightarrow> update_project env req = [Db FindById True, Respond 404]"
  by (simp add: update_project_def update_project_try_def log_def start_def)

lemma hard_delete_not_found:
  "find_result env = Inr None \<Longrightarrow> permanent req = Some ''true'' \<Longrightarrow>
   delete_project env req = [Db FindById True, Respond 404]"
  by (simp add: delete_project_def hard_delete_def log_def start_def)

lemma soft_delete_trace:
  "permanent req \<noteq> Some ''true'' \<Longrightarrow>
   delete_project env req =
     (case write_result env of
        Inl e \<Rightarrow> [Db FindByIdAndUpdate False, Respond 500]
      | Inr r \<Rightarrow> [Db FindByIdAndUpdate True, Respond 200])"
  by (simp add: delete_project_def soft_delete_def log_def start_def split: sum.splits)

lemma update_course_not_found:
  "find_result env = Inr None \<Longrightarrow> update_course env req = [Db FindById True, Respond 404]"
  by (simp add: update_course_def update_course_try_def log_def start_def)

lemma delete_course_not_found:
  "find_result env = Inr None \<Longrightarrow> delete_course env = [Db FindById True, Respond 404]"
  by (simp add: delete_course_def delete_course_try_def log_def start_def)

lemma update_service_not_found:
  "find_result env = Inr None \<Longrightarrow> update_service env req = [Db FindById True, Respond 404]"
  by (simp add: update_service_def update_service_try_def log_def start_def)

text \<open>
  C9: the update handlers and the hard delete answer 404 and do nothing else (the
  lemmas above), but the soft delete does not look at what \<open>findByIdAndUpdate\<close> returns:
  for an id that no project has it answers 200.
\<close>

theorem soft_delete_missing_project:
  "find_result no_such_project = Inr None \<and> write_result no_such_project = Inr False
   \<and> delete_project no_such_project soft_delete_request
       = [Db FindByIdAndUpdate True, Respond 200]"
  by code_simp

section \<open>Course and service routes: order of delete and write\<close>

text \<open>
  C2: a successful service update that replaces the icon. The old icon is deleted
  before \<open>findByIdAndUpdate\<close> is called, and the store removes it.
\<close>

theorem service_update_deletes_first:
  "update_service service_all_ok service_upload =
     [Db FindById True, UploadImage ''s.png'',
      DeleteImage ''https://abc.supabase.co/storage/v1/object/public/media/services/old.png'',
      Db FindByIdAndUpdate True, Respond 200]
   \<and> snd (deleteImageFromSupabase (Some working_service)
        ''https://abc.supabase.co/storage/v1/object/public/media/services/old.png'')
     = [StoreRemove [''services/old.png'']]"
proof -
  have "update_service service_all_ok service_upload =
     [Db FindById True, UploadImage ''s.png'',
      DeleteImage ''https://abc.supabase.co/storage/v1/object/public/media/services/old.png'',
      Db FindByIdAndUpdate True, Respond 200]"
    by code_simp
  moreover have "snd (deleteImageFromSupabase (Some working_service)
        ''https://abc.supabase.co/storage/v1/object/public/media/services/old.png'')
     = [StoreRemove [''services/old.png'']]"
    by (simp add: working_service_def deleteImageFromSupabase_def deleteImage_try_def
        split_js_def remove_call_def)
  ultimately show ?thesis by simp
qed

text \<open>
  C3: a course update that replaces the image while the database write fails. The old
  image is removed from the store first; the update then throws, so the document keeps
  the URL of the removed object.
\<close>

theorem course_update_write_fails:
  "update_course course_write_fails course_upload =
     [Db FindById True,
      DeleteFile ''https://abc.supabase.co/storage/v1/object/public/media/courses/old.png'',
      UploadFile ''c.png'', Db FindByIdAndUpdate False, Respond 500]
   \<and> snd (deleteFile working_service
        ''https://abc.supabase.co/storage/v1/object/public/media/courses/old.png'')
     = [StoreRemove [''courses/old.png'']]"
proof -
  have "update_course course_write_fails course_upload =
     [Db FindById True,
      DeleteFile ''https://abc.supabase.co/storage/v1/object/public/media/courses/old.png'',
      UploadFile ''c.png'', Db FindByIdAndUpdate False, Respond 500]"
    by code_simp
  moreover have "snd (deleteFile working_service
        ''https://abc.supabase.co/storage/v1/object/public/media/courses/old.png'')
     = [StoreRemove [''courses/old.png'']]"
    by (simp add: working_service_def deleteFile_def deleteFile_try_def split_js_def
        remove_call_def)
  ultimately show ?thesis by simp
qed

text \<open>
  C4: a course create whose upload succeeds and whose \<open>Course.create\<close> throws. The
  handler answers 500 and makes no delete call for the uploaded URL.
\<close>

theorem course_create_write_fails:
  "create_course course_write_fails course_upload
     = [UploadFile ''c.png'', Db Create False, Respond 500]"
  by code_simp

end
